theory Spec2Isabelle
  imports Main "HOL-Library.Word" "HOL-Library.Log_Nat"
begin

section \<open>The Bril interpreter \<open>brili.ts\<close>\<close>

text \<open>
  A shallow embedding of \<open>src/bril-ts/brili.ts\<close>: the heap, the reference counter, the
  tracer, the instruction evaluator \<open>evalInstr\<close>, the call protocol \<open>evalCall\<close> and the
  function evaluator \<open>evalFunc\<close>.

  \<^item> A JavaScript \<open>BigInt\<close> is an \<open>int\<close>; \<open>BigInt.asIntN(64, _)\<close> is written out.
  \<^item> A JavaScript \<open>number\<close> that is used as a value of the language (a float) is an
    element of a type parameter \<open>'f\<close>, and its arithmetic is a parameter of the evaluator
    (\<open>numops\<close>): IEEE-754 arithmetic is not modelled.
  \<^item> A JavaScript \<open>number\<close> that holds an array index, a length or the offset of a
    \<open>Key\<close> is always integer-valued here; it is an \<open>int\<close>, and the conversion
    \<open>Number(bigint)\<close> and the addition of two such numbers round to 53 significant bits
    (\<open>toDouble\<close>).
  \<^item> Every \<open>throw\<close> is a value \<open>Inl e\<close> of the result type.
  \<^item> \<open>heap\<close>, \<open>gc\<close> and \<open>tracer\<close> are objects shared by every \<open>State\<close>; they live in
    one record \<open>shared\<close> that is threaded through the evaluator, next to the \<open>State\<close>
    that holds the fields copied by \<open>{...state}\<close>.
  \<^item> A \<open>Map\<close> keyed by \<open>Key\<close> objects compares keys by object identity, so a \<open>Key\<close>
    carries the identity \<open>kid\<close> of the object it was created as.
\<close>

subsection \<open>Errors\<close>

datatype error =
    CannotAllocate int            \<comment> \<open>\<open>cannot allocate N entries\<close>, \<open>must allocate a positive amount\<close>\<close>
  | IllegalFree                   \<comment> \<open>\<open>Tried to free illegal memory location\<close>\<close>
  | IllegalAccess                 \<comment> \<open>\<open>Uninitialized heap location and/or illegal offset\<close>\<close>
  | UndefinedVariable string      \<comment> \<open>\<open>undefined variable\<close>\<close>
  | NoFunction string             \<comment> \<open>\<open>no function of name ... found\<close>\<close>
  | MultipleFunctions string      \<comment> \<open>\<open>multiple functions of name ... found\<close>\<close>
  | WrongArgCount nat nat         \<comment> \<open>\<open>op takes N argument(s); got M\<close>\<close>
  | MissingArgument nat           \<comment> \<open>\<open>expected at least N arguments\<close>\<close>
  | ArgumentType nat              \<comment> \<open>\<open>argument N must be a T\<close>\<close>
  | NotAPointer nat               \<comment> \<open>the string thrown by \<open>getPtr\<close>\<close>
  | MissingLabel nat              \<comment> \<open>\<open>missing labels\<close>, \<open>expecting N labels\<close>\<close>
  | MissingFunc nat               \<comment> \<open>\<open>missing functions\<close>, \<open>expecting N functions\<close>\<close>
  | CallArity nat nat             \<comment> \<open>\<open>function expected N arguments, got M\<close>\<close>
  | CallArgType                   \<comment> \<open>\<open>function argument type mismatch\<close>\<close>
  | UnexpectedReturnValue         \<comment> \<open>\<open>unexpected value returned without destination\<close>\<close>
  | NonVoidNoReturn               \<comment> \<open>\<open>non-void function doesn't return anything\<close>\<close>
  | ReturnTypeDest                \<comment> \<open>\<open>type of value returned by function does not match destination type\<close>\<close>
  | VoidInValueCall               \<comment> \<open>\<open>function with void return type used in value call\<close>\<close>
  | ReturnTypeDecl                \<comment> \<open>\<open>type of value returned by function does not match declaration\<close>\<close>
  | NotDuringSpeculation          \<comment> \<open>\<open>call/ret not allowed during speculation\<close>\<close>
  | RetArgs nat                   \<comment> \<open>\<open>ret takes 0 or 1 argument(s)\<close>\<close>
  | AllocNonPointer               \<comment> \<open>\<open>cannot allocate non-pointer type\<close>\<close>
  | UninitializedData string      \<comment> \<open>\<open>Pointer ... points to uninitialized data\<close>\<close>
  | PhiUnequal                    \<comment> \<open>\<open>phi node has unequal numbers of labels and args\<close>\<close>
  | PhiNoLastLabel                \<comment> \<open>\<open>phi node executed with no last label\<close>\<close>
  | CommitNonSpeculative          \<comment> \<open>\<open>commit in non-speculative state\<close>\<close>
  | AbortNonSpeculative           \<comment> \<open>\<open>abort in non-speculative state\<close>\<close>
  | LabelNotFound string          \<comment> \<open>\<open>label ... not found\<close>\<close>
  | ImplicitReturnSpeculative     \<comment> \<open>\<open>implicit return in speculative state\<close>\<close>
  | RangeError                    \<comment> \<open>thrown by the host: BigInt division by zero,
                                      \<open>BigInt\<close> of a non-finite number, invalid array length\<close>
  | OutOfFuel                     \<comment> \<open>not an error of the program: the model ran out of steps\<close>

definition bindE :: "error + 'a \<Rightarrow> ('a \<Rightarrow> error + 'b) \<Rightarrow> error + 'b" where
  "bindE m f = (case m of Inl e \<Rightarrow> Inl e | Inr x \<Rightarrow> f x)"

subsection \<open>Numbers\<close>

text \<open>\<open>BigInt.asIntN(bits, v)\<close>, as ECMAScript defines it.\<close>

definition asIntN :: "nat \<Rightarrow> int \<Rightarrow> int" where
  "asIntN bits v =
     (let m = v mod 2 ^ bits
      in if m \<ge> 2 ^ (bits - 1) then m - 2 ^ bits else m)"

text \<open>The BigInt division \<open>a / b\<close> for \<open>b \<noteq> 0\<close>: the quotient truncated towards zero.\<close>

definition bigint_div :: "int \<Rightarrow> int \<Rightarrow> int" where
  "bigint_div a b = sgn a * sgn b * (\<bar>a\<bar> div \<bar>b\<bar>)"

text \<open>
  The double nearest to an integer \<open>v\<close> (ties to even), itself an integer: what
  \<open>Number(v)\<close> yields for a BigInt \<open>v\<close>, and what the sum of two integer-valued doubles
  yields when applied to their exact sum. Overflow to \<open>Infinity\<close> (beyond \<open>2 ^ 1024\<close>) is
  not modelled; no BigInt of the interpreter is that large.
\<close>

definition toDouble :: "int \<Rightarrow> int" where
  "toDouble v =
     (let a = \<bar>v\<bar>
      in if a < 2 ^ 53 then v
         else
           let e = floorlog 2 (nat a) - 53;
               q = a div 2 ^ e;
               r = a mod 2 ^ e;
               h = 2 ^ (e - 1);
               q' = (if r > h \<or> (r = h \<and> odd q) then q + 1 else q)
           in sgn v * q' * 2 ^ e)"

subsection \<open>Types, keys and values\<close>

text \<open>
  Modelled from the spec: the declarations of \<open>./bril\<close> (\<open>Type\<close>, \<open>Instruction\<close>,
  \<open>Function\<close>) are imported by \<open>brili.ts\<close> and are not part of the sources. \<open>Type\<close> is one
  of the primitives or \<open>{ptr: Type}\<close>.
\<close>

datatype Type = TInt | TBool | TFloat | TPtr Type

text \<open>
  \<open>class Key\<close>. \<open>kid\<close> is the identity of the object: every \<open>new Key\<close> takes the next
  one.
\<close>

record Key =
  kid :: nat
  base :: nat
  offset :: int

definition Key_add :: "Key \<Rightarrow> int \<Rightarrow> nat \<Rightarrow> Key" where
  \<comment> \<open>\<open>add(offset)\<close>: a new \<open>Key\<close> object, of identity \<open>fresh\<close>\<close>
  "Key_add k off fresh = \<lparr>kid = fresh, base = base k, offset = toDouble (offset k + off)\<rparr>"

record Pointer =
  loc :: Key
  ptr_type :: Type

datatype 'f Value = VInt int | VBool bool | VFloat 'f | VPtr Pointer

type_synonym 'f Env = "string \<rightharpoonup> 'f Value"

fun typeCheck :: "'f Value \<Rightarrow> Type \<Rightarrow> bool" where
  "typeCheck v TInt = (case v of VInt _ \<Rightarrow> True | _ \<Rightarrow> False)"
| "typeCheck v TBool = (case v of VBool _ \<Rightarrow> True | _ \<Rightarrow> False)"
| "typeCheck v TFloat = (case v of VFloat _ \<Rightarrow> True | _ \<Rightarrow> False)"
| "typeCheck v (TPtr _) = (case v of VPtr _ \<Rightarrow> True | _ \<Rightarrow> False)"

fun typeCmp :: "Type \<Rightarrow> Type \<Rightarrow> bool" where
  "typeCmp (TPtr l) rhs = (case rhs of TPtr r \<Rightarrow> typeCmp l r | _ \<Rightarrow> False)"
| "typeCmp lhs rhs = (lhs = rhs)"

definition get :: "'f Env \<Rightarrow> string \<Rightarrow> error + 'f Value" where
  "get env ident = (case env ident of None \<Rightarrow> Inl (UndefinedVariable ident) | Some v \<Rightarrow> Inr v)"

subsection \<open>The heap\<close>

text \<open>
  \<open>class Heap\<close>: \<open>storage\<close> maps a base to its array; a slot that was never written is
  \<open>None\<close> (\<open>undefined\<close>).
\<close>

record 'v Heap =
  storage :: "nat \<rightharpoonup> 'v option list"
  count :: nat

definition Heap_alloc :: "int \<Rightarrow> nat \<Rightarrow> 'v Heap \<Rightarrow> error + (Key \<times> 'v Heap)" where
  \<comment> \<open>\<open>amt\<close> is a JavaScript number; \<open>new Array(amt)\<close> throws from \<open>2 ^ 32\<close> on\<close>
  "Heap_alloc amt fresh h =
     (if amt \<le> 0 then Inl (CannotAllocate amt)
      else if amt \<ge> 2 ^ 32 then Inl RangeError
      else Inr (\<lparr>kid = fresh, base = count h, offset = 0\<rparr>,
                h\<lparr>storage := (storage h)(count h \<mapsto> replicate (nat amt) None),
                  count := count h + 1\<rparr>))"

definition Heap_free :: "Key \<Rightarrow> 'v Heap \<Rightarrow> error + 'v Heap" where
  "Heap_free key h =
     (if storage h (base key) \<noteq> None \<and> offset key = 0
      then Inr (h\<lparr>storage := (storage h)(base key := None)\<rparr>)
      else Inl IllegalFree)"

definition Heap_write :: "Key \<Rightarrow> 'v \<Rightarrow> 'v Heap \<Rightarrow> error + 'v Heap" where
  "Heap_write key val h =
     (case storage h (base key) of
        None \<Rightarrow> Inl IllegalAccess
      | Some data \<Rightarrow>
          if int (length data) > offset key \<and> offset key \<ge> 0
          then Inr (h\<lparr>storage := (storage h)(base key \<mapsto> data[nat (offset key) := Some val])\<rparr>)
          else Inl IllegalAccess)"

definition Heap_read :: "Key \<Rightarrow> 'v Heap \<Rightarrow> error + 'v option" where
  "Heap_read key h =
     (case storage h (base key) of
        None \<Rightarrow> Inl IllegalAccess
      | Some data \<Rightarrow>
          if int (length data) > offset key \<and> offset key \<ge> 0
          then Inr (data ! nat (offset key))
          else Inl IllegalAccess)"

subsection \<open>The reference counter\<close>

text \<open>
  \<open>class GC\<close>: \<open>referenceCounts\<close> is a \<open>Map<Key, number>\<close>, whose keys are compared as
  objects (so by \<open>kid\<close>, which the \<open>Key\<close> record carries). The key \<open>None\<close> is
  \<open>undefined\<close>: \<open>handleAssignment\<close> reads \<open>pointer.loc\<close> of a value that need not be a
  pointer.
\<close>

record GC =
  referenceCounts :: "Key option \<rightharpoonup> int"

definition addReference :: "Key option \<Rightarrow> GC \<Rightarrow> GC" where
  "addReference key g =
     g\<lparr>referenceCounts := (referenceCounts g)(key \<mapsto>
         (case referenceCounts g key of None \<Rightarrow> 1 | Some c \<Rightarrow> c + 1))\<rparr>"

definition removeReference :: "Key option \<Rightarrow> GC \<Rightarrow> GC" where
  "removeReference key g = g\<lparr>referenceCounts := (referenceCounts g)(key := None)\<rparr>"

definition decrementReference :: "Key option \<Rightarrow> GC \<Rightarrow> int option \<times> GC" where
  \<comment> \<open>returns the new count, \<open>None\<close> for \<open>undefined\<close>\<close>
  "decrementReference key g =
     (case referenceCounts g key of
        None \<Rightarrow> (None, g)
      | Some c \<Rightarrow> (Some (c - 1), g\<lparr>referenceCounts := (referenceCounts g)(key \<mapsto> c - 1)\<rparr>))"

subsection \<open>The tracer\<close>

text \<open>\<open>class Tracer\<close>, over the type \<open>'i\<close> of instructions.\<close>

record 'i Tracer =
  trace :: "string \<rightharpoonup> 'i list"
  functionCalls :: "string \<rightharpoonup> int"
  traced :: "string set"
  hotLimit :: int
  active :: bool
  nowTracing :: string

definition Tracer_new :: "int \<Rightarrow> 'i Tracer" where
  "Tracer_new limit =
     \<lparr>trace = Map.empty, functionCalls = Map.empty, traced = {}, hotLimit = limit,
      active = False, nowTracing = ''''\<rparr>"

definition addFunctionCall :: "string \<Rightarrow> 'i Tracer \<Rightarrow> 'i Tracer" where
  "addFunctionCall name t =
     t\<lparr>functionCalls := (functionCalls t)(name \<mapsto>
         (case functionCalls t name of None \<Rightarrow> 1 | Some c \<Rightarrow> c + 1))\<rparr>"

definition isHot :: "string \<Rightarrow> 'i Tracer \<Rightarrow> bool" where
  "isHot name t = (case functionCalls t name of None \<Rightarrow> False | Some c \<Rightarrow> c \<ge> hotLimit t)"

definition isTraced :: "string \<Rightarrow> 'i Tracer \<Rightarrow> bool" where
  "isTraced name t = (name \<in> traced t)"

definition traceInstr :: "'i \<Rightarrow> 'i Tracer \<Rightarrow> 'i Tracer" where
  "traceInstr instr t =
     (case trace t (nowTracing t) of
        None \<Rightarrow> t
      | Some funcTrace \<Rightarrow> t\<lparr>trace := (trace t)(nowTracing t \<mapsto> funcTrace @ [instr])\<rparr>)"

definition completeTracing :: "string \<Rightarrow> 'i Tracer \<Rightarrow> 'i Tracer" where
  "completeTracing name t = t\<lparr>traced := insert name (traced t)\<rparr>"

definition isActive :: "'i Tracer \<Rightarrow> bool" where
  "isActive t = active t"

definition activate :: "string \<Rightarrow> 'i Tracer \<Rightarrow> 'i Tracer" where
  "activate name t = t\<lparr>active := True, nowTracing := name, trace := (trace t)(name \<mapsto> [])\<rparr>"

definition deactivate :: "'i Tracer \<Rightarrow> 'i Tracer" where
  "deactivate t =
     t\<lparr>active := False, traced := insert (nowTracing t) (traced t), nowTracing := ''''\<rparr>"

subsection \<open>Programs\<close>

text \<open>
  Modelled from the spec: the instruction shapes of \<open>./bril\<close>. An \<open>Instruction\<close> is a
  \<open>Constant\<close> or an \<open>Operation\<close>; an \<open>Operation\<close> is value-shaped (it has \<open>dest\<close> and
  \<open>type\<close>) or effect-shaped. An absent \<open>args\<close>, \<open>funcs\<close> or \<open>labels\<close> is the empty list.
  The opcodes are the keys of \<open>argCounts\<close>; the value opcodes are those for which
  \<open>evalInstr\<close> reads \<open>instr.dest\<close>, and \<open>call\<close> has both shapes. A literal is a JSON
  number or a boolean.
\<close>

datatype 'f literal = LNum 'f | LBool bool

datatype vop =
    Add | Mul | Sub | Div | Id | Lt | Le | Gt | Ge | Eq | Not | And | Or
  | Fadd | Fmul | Fsub | Fdiv | Flt | Fle | Fgt | Fge | Feq
  | VCall | Alloc | Load | Ptradd | Phi

datatype eop =
    Print | Br | Jmp | Ret | Nop | ECall | Free | Store | Speculate | Guard | Commit

datatype Operation =
    ValueOperation vop string Type "string list" "string list" "string list"
      \<comment> \<open>op, dest, type, args, funcs, labels\<close>
  | EffectOperation eop "string list" "string list" "string list"
      \<comment> \<open>op, args, funcs, labels\<close>

datatype 'f Instruction =
    Constant string "Type option" "'f literal"   \<comment> \<open>dest, type, value\<close>
  | Operation Operation

datatype 'f Code = Label string | Instr "'f Instruction"

record 'f Function =
  name :: string
  args :: "(string \<times> Type) list"
  instrs :: "'f Code list"
  ftype :: "Type option"

fun args_of :: "Operation \<Rightarrow> string list" where
  "args_of (ValueOperation _ _ _ as _ _) = as"
| "args_of (EffectOperation _ as _ _) = as"

fun funcs_of :: "Operation \<Rightarrow> string list" where
  "funcs_of (ValueOperation _ _ _ _ fs _) = fs"
| "funcs_of (EffectOperation _ _ fs _) = fs"

fun labels_of :: "Operation \<Rightarrow> string list" where
  "labels_of (ValueOperation _ _ _ _ _ ls) = ls"
| "labels_of (EffectOperation _ _ _ ls) = ls"

fun argCounts_v :: "vop \<Rightarrow> nat option" where
  "argCounts_v Id = Some 1"
| "argCounts_v Not = Some 1"
| "argCounts_v VCall = None"
| "argCounts_v Alloc = Some 1"
| "argCounts_v Load = Some 1"
| "argCounts_v Phi = None"
| "argCounts_v _ = Some 2"

fun argCounts_e :: "eop \<Rightarrow> nat option" where
  "argCounts_e Print = None"
| "argCounts_e Br = Some 1"
| "argCounts_e Jmp = Some 0"
| "argCounts_e Ret = None"
| "argCounts_e Nop = Some 0"
| "argCounts_e ECall = None"
| "argCounts_e Free = Some 1"
| "argCounts_e Store = Some 2"
| "argCounts_e Speculate = Some 0"
| "argCounts_e Guard = Some 1"
| "argCounts_e Commit = Some 0"

fun argCounts :: "Operation \<Rightarrow> nat option" where
  "argCounts (ValueOperation op _ _ _ _ _) = argCounts_v op"
| "argCounts (EffectOperation op _ _ _) = argCounts_e op"

fun isCallOrRet :: "Operation \<Rightarrow> bool" where
  "isCallOrRet (ValueOperation op _ _ _ _ _) = (op = VCall)"
| "isCallOrRet (EffectOperation op _ _ _) = (op = ECall \<or> op = Ret)"

subsection \<open>Actions and states\<close>

datatype 'f Action =
    Next
  | Jump string
  | End "'f Value option"
  | ActSpeculate
  | ActCommit
  | Abort string

text \<open>
  \<open>type State\<close>. The fields that \<open>{...state}\<close> copies by value are the record \<open>frame\<close>
  and \<open>specparent\<close>; \<open>heap\<close>, \<open>gc\<close> and \<open>tracer\<close> are references to the objects of
  \<open>shared\<close>. \<open>keys\<close> counts the \<open>Key\<close> objects created so far and \<open>out\<close> is what
  \<open>console.log\<close> has printed, one list of values for each line.
\<close>

record 'f frame =
  env :: "'f Env"
  gcenabled :: bool
  disablefree :: bool
  tracerenabled :: bool
  funcs :: "'f Function list"
  icount :: int
  curlabel :: "string option"
  lastlabel :: "string option"

datatype 'f State = State (frame: "'f frame") (specparent: "'f State option")

record 'f shared =
  heap :: "'f Value Heap"
  gc :: GC
  tracer :: "'f Instruction Tracer"
  keys :: nat
  out :: "'f Value list list"

definition upd :: "('f frame \<Rightarrow> 'f frame) \<Rightarrow> 'f State \<Rightarrow> 'f State" where
  "upd g st = State (g (frame st)) (specparent st)"

definition setVar :: "string \<Rightarrow> 'f Value \<Rightarrow> 'f State \<Rightarrow> 'f State" where
  \<comment> \<open>\<open>state.env.set(dest, val)\<close>\<close>
  "setVar d v st = upd (\<lambda>f. f\<lparr>env := (env f)(d \<mapsto> v)\<rparr>) st"

definition delVar :: "string \<Rightarrow> 'f State \<Rightarrow> 'f State" where
  \<comment> \<open>\<open>state.env.delete(dest)\<close>\<close>
  "delVar d st = upd (\<lambda>f. f\<lparr>env := (env f)(d := None)\<rparr>) st"

text \<open>The arithmetic of the host's floats, a parameter of the evaluator.\<close>

record 'f numops =
  n_add :: "'f \<Rightarrow> 'f \<Rightarrow> 'f"
  n_sub :: "'f \<Rightarrow> 'f \<Rightarrow> 'f"
  n_mul :: "'f \<Rightarrow> 'f \<Rightarrow> 'f"
  n_div :: "'f \<Rightarrow> 'f \<Rightarrow> 'f"
  n_le :: "'f \<Rightarrow> 'f \<Rightarrow> bool"
  n_lt :: "'f \<Rightarrow> 'f \<Rightarrow> bool"
  n_gt :: "'f \<Rightarrow> 'f \<Rightarrow> bool"
  n_ge :: "'f \<Rightarrow> 'f \<Rightarrow> bool"
  n_eq :: "'f \<Rightarrow> 'f \<Rightarrow> bool"
  n_floor :: "'f \<Rightarrow> int option"  \<comment> \<open>\<open>BigInt(Math.floor(x))\<close>, \<open>None\<close> where it throws\<close>

subsection \<open>\<open>GC.handleAssignment\<close>\<close>

definition handleAssignment ::
  "string \<Rightarrow> 'f State \<Rightarrow> 'f Value \<Rightarrow> 'f shared \<Rightarrow> error + 'f shared" where
  "handleAssignment dst st pointer sh =
     (let ploc = (case pointer of VPtr p \<Rightarrow> Some (loc p) | _ \<Rightarrow> None)
      in case env (frame st) dst of
           Some (VPtr old) \<Rightarrow>
             (case decrementReference (Some (loc old)) (gc sh) of
                (c, g1) \<Rightarrow>
                  if c = Some 0
                  then bindE (Heap_free (loc old) (heap sh)) (\<lambda>h1.
                         Inr (sh\<lparr>heap := h1,
                                 gc := addReference ploc
                                   (g1\<lparr>referenceCounts :=
                                        (referenceCounts g1)(Some (loc old) := None)\<rparr>)\<rparr>))
                  else Inr (sh\<lparr>gc := addReference ploc g1\<rparr>))
         | _ \<Rightarrow> Inr (sh\<lparr>gc := addReference ploc (gc sh)\<rparr>))"

subsection \<open>Helpers of the evaluator\<close>

definition findFunc :: "string \<Rightarrow> 'f Function list \<Rightarrow> error + 'f Function" where
  "findFunc func fs =
     (let matches = filter (\<lambda>f. name f = func) fs
      in if length matches = 0 then Inl (NoFunction func)
         else if length matches > 1 then Inl (MultipleFunctions func)
         else Inr (hd matches))"

definition alloc :: "Type \<Rightarrow> int \<Rightarrow> 'f shared \<Rightarrow> error + (Pointer \<times> 'f shared)" where
  "alloc ptrType amt sh =
     (case ptrType of
        TPtr dataType \<Rightarrow>
          if amt \<le> 0 then Inl (CannotAllocate amt)
          else bindE (Heap_alloc amt (keys sh) (heap sh)) (\<lambda>(k, h).
                 Inr (\<lparr>loc = k, ptr_type = dataType\<rparr>, sh\<lparr>heap := h, keys := keys sh + 1\<rparr>))
      | _ \<Rightarrow> Inl AllocNonPointer)"

definition checkArgs :: "Operation \<Rightarrow> nat \<Rightarrow> error + unit" where
  "checkArgs instr cnt =
     (let found = length (args_of instr)
      in if found \<noteq> cnt then Inl (WrongArgCount cnt found) else Inr ())"

definition getArgument ::
  "Operation \<Rightarrow> 'f Env \<Rightarrow> nat \<Rightarrow> Type option \<Rightarrow> error + 'f Value" where
  "getArgument instr e index typ =
     (let as = args_of instr
      in if length as \<le> index then Inl (MissingArgument (index + 1))
         else bindE (get e (as ! index)) (\<lambda>val.
                case typ of
                  None \<Rightarrow> Inr val
                | Some t \<Rightarrow> if \<not> typeCheck val t then Inl (ArgumentType index) else Inr val))"

definition getPtr :: "Operation \<Rightarrow> 'f Env \<Rightarrow> nat \<Rightarrow> error + Pointer" where
  "getPtr instr e index =
     bindE (getArgument instr e index None) (\<lambda>val.
       case val of VPtr p \<Rightarrow> Inr p | _ \<Rightarrow> Inl (NotAPointer index))"

definition getInt :: "Operation \<Rightarrow> 'f Env \<Rightarrow> nat \<Rightarrow> error + int" where
  "getInt instr e index =
     bindE (getArgument instr e index (Some TInt)) (\<lambda>val.
       case val of VInt n \<Rightarrow> Inr n | _ \<Rightarrow> Inl (ArgumentType index))"

definition getBool :: "Operation \<Rightarrow> 'f Env \<Rightarrow> nat \<Rightarrow> error + bool" where
  "getBool instr e index =
     bindE (getArgument instr e index (Some TBool)) (\<lambda>val.
       case val of VBool b \<Rightarrow> Inr b | _ \<Rightarrow> Inl (ArgumentType index))"

definition getFloat :: "Operation \<Rightarrow> 'f Env \<Rightarrow> nat \<Rightarrow> error + 'f" where
  "getFloat instr e index =
     bindE (getArgument instr e index (Some TFloat)) (\<lambda>val.
       case val of VFloat x \<Rightarrow> Inr x | _ \<Rightarrow> Inl (ArgumentType index))"

definition getLabel :: "Operation \<Rightarrow> nat \<Rightarrow> error + string" where
  "getLabel instr index =
     (if length (labels_of instr) \<le> index then Inl (MissingLabel (index + 1))
      else Inr (labels_of instr ! index))"

definition getFunc :: "Operation \<Rightarrow> nat \<Rightarrow> error + string" where
  "getFunc instr index =
     (if length (funcs_of instr) \<le> index then Inl (MissingFunc (index + 1))
      else Inr (funcs_of instr ! index))"

text \<open>\<open>Array.prototype.indexOf\<close>: the first index, \<open>None\<close> for \<open>-1\<close>.\<close>

fun indexOf :: "'a list \<Rightarrow> 'a \<Rightarrow> nat option" where
  "indexOf [] x = None"
| "indexOf (y # ys) x = (if y = x then Some 0 else map_option Suc (indexOf ys x))"

fun mapE :: "('a \<Rightarrow> error + 'b) \<Rightarrow> 'a list \<Rightarrow> error + 'b list" where
  "mapE f [] = Inr []"
| "mapE f (x # xs) = bindE (f x) (\<lambda>y. bindE (mapE f xs) (\<lambda>ys. Inr (y # ys)))"

subsection \<open>\<open>evalCall\<close>\<close>

text \<open>
  The result of evaluating an instruction, and of evaluating a function: what is
  returned, with the \<open>State\<close> and the shared objects as the evaluation left them.
  \<open>evalCall\<close> and \<open>evalInstr\<close> take the function evaluator \<open>ef\<close> as a parameter;
  \<open>evalFuncFrom\<close> below passes itself.
\<close>

type_synonym 'f instr_result = "error + ('f Action \<times> 'f State \<times> 'f shared)"
type_synonym 'f func_result = "error + ('f Value option \<times> 'f State \<times> 'f shared)"
type_synonym 'f evaluator = "'f Function \<Rightarrow> 'f State \<Rightarrow> 'f shared \<Rightarrow> 'f func_result"

text \<open>The loop over the parameters that fills \<open>newEnv\<close>.\<close>

fun bindArgs ::
  "((string \<times> Type) \<times> string) list \<Rightarrow> 'f Env \<Rightarrow> 'f Env \<Rightarrow> error + 'f Env" where
  "bindArgs [] e newEnv = Inr newEnv"
| "bindArgs (((pname, ptype), a) # rest) e newEnv =
     bindE (get e a) (\<lambda>val.
       if \<not> typeCheck val ptype then Inl CallArgType
       else bindArgs rest e (newEnv(pname \<mapsto> val)))"

text \<open>The tracer before the call (lines 523-531) and after it (lines 535-539).\<close>

definition traceEnter :: "bool \<Rightarrow> string \<Rightarrow> 'i Tracer \<Rightarrow> 'i Tracer" where
  "traceEnter enabled funcName t =
     (if enabled \<and> \<not> isTraced funcName t
      then let t1 = addFunctionCall funcName t
           in if isHot funcName t1 then activate funcName t1 else t1
      else t)"

definition traceLeave :: "bool \<Rightarrow> string \<Rightarrow> 'i Tracer \<Rightarrow> 'i Tracer" where
  "traceLeave enabled funcName t =
     (if enabled \<and> isActive t then completeTracing funcName (deactivate t) else t)"

definition newState :: "'f State \<Rightarrow> 'f Env \<Rightarrow> 'f State" where
  "newState st newEnv =
     State ((frame st)\<lparr>env := newEnv, lastlabel := None, curlabel := None\<rparr>) None"

text \<open>The dynamic check of the returned value (lines 543-574).\<close>

definition checkReturn ::
  "Operation \<Rightarrow> 'f Function \<Rightarrow> 'f Value option \<Rightarrow> 'f State \<Rightarrow> error + 'f State" where
  "checkReturn instr func retVal st =
     (case instr of
        EffectOperation _ _ _ _ \<Rightarrow>
          if retVal \<noteq> None then Inl UnexpectedReturnValue
          else if ftype func \<noteq> None then Inl NonVoidNoReturn
          else Inr st
      | ValueOperation _ dest typ _ _ _ \<Rightarrow>
          (case retVal of
             None \<Rightarrow> Inl NonVoidNoReturn
           | Some rv \<Rightarrow>
               if \<not> typeCheck rv typ then Inl ReturnTypeDest
               else (case ftype func of
                       None \<Rightarrow> Inl VoidInValueCall
                     | Some ft \<Rightarrow>
                         if \<not> typeCmp typ ft then Inl ReturnTypeDecl
                         else Inr (setVar dest rv st))))"

definition evalCall ::
  "'f evaluator \<Rightarrow> Operation \<Rightarrow> 'f State \<Rightarrow> 'f shared \<Rightarrow> 'f instr_result" where
  "evalCall ef instr st sh =
     bindE (getFunc instr 0) (\<lambda>funcName.
     bindE (findFunc funcName (funcs (frame st))) (\<lambda>func.
       let params = args func; as = args_of instr
       in if length params \<noteq> length as then Inl (CallArity (length params) (length as))
          else
            bindE (bindArgs (zip params as) (env (frame st)) Map.empty) (\<lambda>newEnv.
            bindE (ef func (newState st newEnv)
                     (sh\<lparr>tracer := traceEnter (tracerenabled (frame st)) funcName (tracer sh)\<rparr>))
              (\<lambda>(retVal, st', sh').
                 let sh1 = sh'\<lparr>tracer :=
                             traceLeave (tracerenabled (frame st)) funcName (tracer sh')\<rparr>;
                     st1 = upd (\<lambda>f. f\<lparr>icount := icount (frame st')\<rparr>) st
                 in bindE (checkReturn instr func retVal st1) (\<lambda>st2. Inr (Next, st2, sh1))))))"

subsection \<open>\<open>evalInstr\<close>\<close>

definition next_with :: "string \<Rightarrow> 'f Value \<Rightarrow> 'f State \<Rightarrow> 'f shared \<Rightarrow> 'f instr_result" where
  \<comment> \<open>\<open>state.env.set(instr.dest, val); return NEXT;\<close>\<close>
  "next_with dest val st sh = Inr (Next, setVar dest val st, sh)"

definition gcAssign :: "string \<Rightarrow> 'f State \<Rightarrow> 'f Value \<Rightarrow> 'f shared \<Rightarrow> error + 'f shared" where
  \<comment> \<open>\<open>if (state.gcenabled) state.gc.handleAssignment(...)\<close>\<close>
  "gcAssign dest st val sh =
     (if gcenabled (frame st) then handleAssignment dest st val sh else Inr sh)"

definition evalValueOp ::
  "'f numops \<Rightarrow> 'f evaluator \<Rightarrow> vop \<Rightarrow> string \<Rightarrow> Type \<Rightarrow> Operation \<Rightarrow> 'f State \<Rightarrow> 'f shared
     \<Rightarrow> 'f instr_result" where
  "evalValueOp no ef op dest typ instr st sh =
     (let e = env (frame st);
          ints = (\<lambda>k. bindE (getInt instr e 0) (\<lambda>a. bindE (getInt instr e 1) (k a)));
          floats = (\<lambda>k. bindE (getFloat instr e 0) (\<lambda>a. bindE (getFloat instr e 1) (k a)))
      in case op of
           Id \<Rightarrow>
             bindE (getArgument instr e 0 None) (\<lambda>val.
             bindE (gcAssign dest st val sh) (\<lambda>sh1. next_with dest val st sh1))
         | Add \<Rightarrow> ints (\<lambda>a b. next_with dest (VInt (asIntN 64 (a + b))) st sh)
         | Mul \<Rightarrow> ints (\<lambda>a b. next_with dest (VInt (asIntN 64 (a * b))) st sh)
         | Sub \<Rightarrow> ints (\<lambda>a b. next_with dest (VInt (asIntN 64 (a - b))) st sh)
         | Div \<Rightarrow> ints (\<lambda>a b. if b = 0 then Inl RangeError
                              else next_with dest (VInt (asIntN 64 (bigint_div a b))) st sh)
         | Le \<Rightarrow> ints (\<lambda>a b. next_with dest (VBool (a \<le> b)) st sh)
         | Lt \<Rightarrow> ints (\<lambda>a b. next_with dest (VBool (a < b)) st sh)
         | Gt \<Rightarrow> ints (\<lambda>a b. next_with dest (VBool (a > b)) st sh)
         | Ge \<Rightarrow> ints (\<lambda>a b. next_with dest (VBool (a \<ge> b)) st sh)
         | Eq \<Rightarrow> ints (\<lambda>a b. next_with dest (VBool (a = b)) st sh)
         | Not \<Rightarrow> bindE (getBool instr e 0) (\<lambda>a. next_with dest (VBool (\<not> a)) st sh)
         | And \<Rightarrow>
             bindE (getBool instr e 0) (\<lambda>a.
               if a then bindE (getBool instr e 1) (\<lambda>b. next_with dest (VBool b) st sh)
               else next_with dest (VBool False) st sh)
         | Or \<Rightarrow>
             bindE (getBool instr e 0) (\<lambda>a.
               if a then next_with dest (VBool True) st sh
               else bindE (getBool instr e 1) (\<lambda>b. next_with dest (VBool b) st sh))
         | Fadd \<Rightarrow> floats (\<lambda>a b. next_with dest (VFloat (n_add no a b)) st sh)
         | Fsub \<Rightarrow> floats (\<lambda>a b. next_with dest (VFloat (n_sub no a b)) st sh)
         | Fmul \<Rightarrow> floats (\<lambda>a b. next_with dest (VFloat (n_mul no a b)) st sh)
         | Fdiv \<Rightarrow> floats (\<lambda>a b. next_with dest (VFloat (n_div no a b)) st sh)
         | Fle \<Rightarrow> floats (\<lambda>a b. next_with dest (VBool (n_le no a b)) st sh)
         | Flt \<Rightarrow> floats (\<lambda>a b. next_with dest (VBool (n_lt no a b)) st sh)
         | Fgt \<Rightarrow> floats (\<lambda>a b. next_with dest (VBool (n_gt no a b)) st sh)
         | Fge \<Rightarrow> floats (\<lambda>a b. next_with dest (VBool (n_ge no a b)) st sh)
         | Feq \<Rightarrow> floats (\<lambda>a b. next_with dest (VBool (n_eq no a b)) st sh)
         | VCall \<Rightarrow> evalCall ef instr st sh
         | Alloc \<Rightarrow>
             bindE (getInt instr e 0) (\<lambda>amt.
               case typ of
                 TPtr _ \<Rightarrow>
                   bindE (alloc typ (toDouble amt) sh) (\<lambda>(ptr, sh1).
                   bindE (gcAssign dest st (VPtr ptr) sh1) (\<lambda>sh2.
                     next_with dest (VPtr ptr) st sh2))
               | _ \<Rightarrow> Inl AllocNonPointer)
         | Load \<Rightarrow>
             bindE (getPtr instr e 0) (\<lambda>ptr.
             bindE (Heap_read (loc ptr) (heap sh)) (\<lambda>val.
               case val of
                 None \<Rightarrow> Inl (UninitializedData (args_of instr ! 0))
               | Some v \<Rightarrow> next_with dest v st sh))
         | Ptradd \<Rightarrow>
             bindE (getPtr instr e 0) (\<lambda>ptr.
             bindE (getInt instr e 1) (\<lambda>val.
               next_with dest
                 (VPtr \<lparr>loc = Key_add (loc ptr) (toDouble val) (keys sh), ptr_type = ptr_type ptr\<rparr>)
                 st (sh\<lparr>keys := keys sh + 1\<rparr>)))
         | Phi \<Rightarrow>
             (let labels = labels_of instr; as = args_of instr
              in if length labels \<noteq> length as then Inl PhiUnequal
                 else
                   (case lastlabel (frame st) of
                      None \<Rightarrow> Inl PhiNoLastLabel
                    | Some ll \<Rightarrow>
                        if ll = [] then Inl PhiNoLastLabel
                        else
                          (case indexOf labels ll of
                             None \<Rightarrow> Inr (Next, delVar dest st, sh)
                           | Some idx \<Rightarrow>
                               if idx \<ge> length as then Inl (MissingArgument (idx + 1))
                               else
                                 (case e (as ! idx) of
                                    None \<Rightarrow> Inr (Next, delVar dest st, sh)
                                  | Some val \<Rightarrow> next_with dest val st sh)))))"

definition evalEffectOp ::
  "'f evaluator \<Rightarrow> eop \<Rightarrow> Operation \<Rightarrow> 'f State \<Rightarrow> 'f shared \<Rightarrow> 'f instr_result" where
  "evalEffectOp ef op instr st sh =
     (let e = env (frame st)
      in case op of
           Print \<Rightarrow>
             bindE (mapE (get e) (args_of instr)) (\<lambda>values.
               Inr (Next, st, sh\<lparr>out := out sh @ [values]\<rparr>))
         | Jmp \<Rightarrow> bindE (getLabel instr 0) (\<lambda>l. Inr (Jump l, st, sh))
         | Br \<Rightarrow>
             bindE (getBool instr e 0) (\<lambda>cond.
               if cond then bindE (getLabel instr 0) (\<lambda>l. Inr (Jump l, st, sh))
               else bindE (getLabel instr 1) (\<lambda>l. Inr (Jump l, st, sh)))
         | Ret \<Rightarrow>
             (let as = args_of instr
              in if length as = 0 then Inr (End None, st, sh)
                 else if length as = 1
                 then bindE (get e (as ! 0)) (\<lambda>val. Inr (End (Some val), st, sh))
                 else Inl (RetArgs (length as)))
         | Nop \<Rightarrow> Inr (Next, st, sh)
         | ECall \<Rightarrow> evalCall ef instr st sh
         | Free \<Rightarrow>
             bindE (getPtr instr e 0) (\<lambda>val.
               if \<not> disablefree (frame st)
               then bindE (Heap_free (loc val) (heap sh)) (\<lambda>h1.
                      Inr (Next, st, sh\<lparr>heap := h1, gc := removeReference (Some (loc val)) (gc sh)\<rparr>))
               else Inr (Next, st, sh))
         | Store \<Rightarrow>
             bindE (getPtr instr e 0) (\<lambda>target.
             bindE (getArgument instr e 1 (Some (ptr_type target))) (\<lambda>val.
             bindE (Heap_write (loc target) val (heap sh)) (\<lambda>h1.
               Inr (Next, st, sh\<lparr>heap := h1\<rparr>))))
         | Speculate \<Rightarrow> Inr (ActSpeculate, st, sh)
         | Guard \<Rightarrow>
             bindE (getBool instr e 0) (\<lambda>cond.
               if cond then Inr (Next, st, sh)
               else bindE (getLabel instr 0) (\<lambda>l. Inr (Abort l, st, sh)))
         | Commit \<Rightarrow> Inr (ActCommit, st, sh))"

definition evalConst ::
  "'f numops \<Rightarrow> string \<Rightarrow> Type option \<Rightarrow> 'f literal \<Rightarrow> 'f State \<Rightarrow> 'f shared \<Rightarrow> 'f instr_result"
  where
  "evalConst no dest typ lit st sh =
     (case lit of
        LNum x \<Rightarrow>
          if typ = Some TFloat then next_with dest (VFloat x) st sh
          else (case n_floor no x of
                  None \<Rightarrow> Inl RangeError
                | Some z \<Rightarrow> next_with dest (VInt z) st sh)
      | LBool b \<Rightarrow> next_with dest (VBool b) st sh)"

text \<open>
  The preamble of \<open>evalInstr\<close>: count the instruction, record it when the tracer is
  active, check the number of arguments, refuse \<open>call\<close> and \<open>ret\<close> during speculation.
\<close>

definition countAndTrace ::
  "'f Instruction \<Rightarrow> 'f State \<Rightarrow> 'f shared \<Rightarrow> 'f State \<times> 'f shared" where
  "countAndTrace instr st sh =
     (upd (\<lambda>f. f\<lparr>icount := icount f + 1\<rparr>) st,
      if isActive (tracer sh) then sh\<lparr>tracer := traceInstr instr (tracer sh)\<rparr> else sh)"

definition checkOperation :: "Operation \<Rightarrow> 'f State \<Rightarrow> error + unit" where
  "checkOperation opn st =
     bindE (case argCounts opn of None \<Rightarrow> Inr () | Some cnt \<Rightarrow> checkArgs opn cnt) (\<lambda>_.
       if specparent st \<noteq> None \<and> isCallOrRet opn then Inl NotDuringSpeculation else Inr ())"

definition evalInstr ::
  "'f numops \<Rightarrow> 'f evaluator \<Rightarrow> 'f Instruction \<Rightarrow> 'f State \<Rightarrow> 'f shared \<Rightarrow> 'f instr_result"
  where
  "evalInstr no ef instr st sh =
     (case countAndTrace instr st sh of
        (st1, sh1) \<Rightarrow>
          (case instr of
             Constant dest typ lit \<Rightarrow> evalConst no dest typ lit st1 sh1
           | Operation opn \<Rightarrow>
               bindE (checkOperation opn st1) (\<lambda>_.
                 case opn of
                   ValueOperation op dest typ _ _ _ \<Rightarrow> evalValueOp no ef op dest typ opn st1 sh1
                 | EffectOperation op _ _ _ \<Rightarrow> evalEffectOp ef op opn st1 sh1)))"

subsection \<open>\<open>evalFunc\<close>\<close>

text \<open>The \<open>switch\<close> on the action, for the actions that do not end the function.\<close>

definition takeAction :: "'f Action \<Rightarrow> 'f State \<Rightarrow> error + 'f State" where
  "takeAction action st =
     (case action of
        ActSpeculate \<Rightarrow> Inr (State (frame st) (Some st))
      | ActCommit \<Rightarrow>
          if specparent st = None then Inl CommitNonSpeculative
          else Inr (State (frame st) None)
      | Abort _ \<Rightarrow>
          (case specparent st of
             None \<Rightarrow> Inl AbortNonSpeculative
           | Some sp \<Rightarrow>
               Inr (State ((frame st)\<lparr>env := env (frame sp),
                                      lastlabel := lastlabel (frame sp),
                                      curlabel := curlabel (frame sp)\<rparr>)
                          (specparent sp)))
      | _ \<Rightarrow> Inr st)"

fun actionLabel :: "'f Action \<Rightarrow> string option" where
  \<comment> \<open>\<open>'label' in action\<close>\<close>
  "actionLabel (Jump l) = Some l"
| "actionLabel (Abort l) = Some l"
| "actionLabel _ = None"

text \<open>
  The search for a label: the index of the first \<open>Label\<close> item of that name, where the
  loop goes on.
\<close>

fun findLabel :: "string \<Rightarrow> 'f Code list \<Rightarrow> nat option" where
  "findLabel l [] = None"
| "findLabel l (c # cs) =
     (if c = Label l then Some 0 else map_option Suc (findLabel l cs))"

text \<open>
  The loop of \<open>evalFunc\<close> from index \<open>i\<close>. It need not end, so it takes fuel: one unit
  for each round of the loop, and a call hands the fuel that is left to the callee.
\<close>

fun evalFuncFrom ::
  "'f numops \<Rightarrow> nat \<Rightarrow> 'f Function \<Rightarrow> nat \<Rightarrow> 'f State \<Rightarrow> 'f shared \<Rightarrow> 'f func_result" where
  "evalFuncFrom no 0 func i st sh = Inl OutOfFuel"
| "evalFuncFrom no (Suc n) func i st sh =
     (if i < length (instrs func) then
        (case instrs func ! i of
           Label l \<Rightarrow>
             evalFuncFrom no n func (i + 1)
               (upd (\<lambda>f. f\<lparr>lastlabel := curlabel f, curlabel := Some l\<rparr>) st) sh
         | Instr line \<Rightarrow>
             bindE (evalInstr no (\<lambda>f s h. evalFuncFrom no n f 0 s h) line st sh)
               (\<lambda>(action, st1, sh1).
                  case action of
                    End ret \<Rightarrow> Inr (ret, st1, sh1)
                  | _ \<Rightarrow>
                      bindE (takeAction action st1) (\<lambda>st2.
                        case actionLabel action of
                          None \<Rightarrow> evalFuncFrom no n func (i + 1) st2 sh1
                        | Some l \<Rightarrow>
                            (case findLabel l (instrs func) of
                               None \<Rightarrow> Inl (LabelNotFound l)
                             | Some j \<Rightarrow> evalFuncFrom no n func j st2 sh1))))
      else if specparent st \<noteq> None then Inl ImplicitReturnSpeculative
      else Inr (None, st, sh))"

definition evalFunc :: "'f numops \<Rightarrow> nat \<Rightarrow> 'f evaluator" where
  "evalFunc no n func st sh = evalFuncFrom no n func 0 st sh"

subsection \<open>The initial state and concrete inputs\<close>

text \<open>
  The \<open>State\<close> that \<open>evalProg\<close> builds (lines 1030-1087) and the fresh shared objects,
  for a tracer of the given hot limit.
\<close>

definition initState :: "'f Function list \<Rightarrow> 'f Env \<Rightarrow> bool \<Rightarrow> bool \<Rightarrow> bool \<Rightarrow> 'f State" where
  "initState fs newEnv usegc nofree enabletracing =
     State \<lparr>env = newEnv, gcenabled = usegc, disablefree = nofree, tracerenabled = enabletracing,
            funcs = fs, icount = 0, curlabel = None, lastlabel = None\<rparr> None"

definition initShared :: "int \<Rightarrow> 'f shared" where
  "initShared limit =
     \<lparr>heap = \<lparr>storage = Map.empty, count = 0\<rparr>, gc = \<lparr>referenceCounts = Map.empty\<rparr>,
      tracer = Tracer_new limit, keys = 0, out = []\<rparr>"

text \<open>
  The concrete runs below take the integers for the numbers of the host: every number
  in them is a small integer, on which the host's arithmetic is exact.
\<close>

definition int_numops :: "int numops" where
  "int_numops = \<lparr>n_add = (+), n_sub = (-), n_mul = (*), n_div = (div), n_le = (\<le>), n_lt = (<),
     n_gt = (>), n_ge = (\<ge>), n_eq = (=), n_floor = Some\<rparr>"

text \<open>The binding of a variable after an instruction, \<open>None\<close> also when it failed.\<close>

definition env_after :: "'f instr_result \<Rightarrow> string \<Rightarrow> 'f Value option" where
  "env_after r x = (case r of Inl e \<Rightarrow> None | Inr (a, st, sh) \<Rightarrow> env (frame st) x)"

text \<open>
  \<^verbatim>\<open>one: int = const 1; p: ptr<int> = alloc one; zero: int = const 0;
  q: ptr<int> = ptradd p zero; r: ptr<int> = id q;\<close>
\<close>

definition gc_prog :: "int Function" where
  "gc_prog =
     \<lparr>name = ''main'', args = [],
      instrs =
        [Instr (Constant ''one'' (Some TInt) (LNum 1)),
         Instr (Operation (ValueOperation Alloc ''p'' (TPtr TInt) [''one''] [] [])),
         Instr (Constant ''zero'' (Some TInt) (LNum 0)),
         Instr (Operation (ValueOperation Ptradd ''q'' (TPtr TInt) [''p'', ''zero''] [] [])),
         Instr (Operation (ValueOperation Id ''r'' (TPtr TInt) [''q''] [] []))],
      ftype = None\<rparr>"

text \<open>A function \<open>main\<close> of the given code, without parameters and return type.\<close>

definition prog_of :: "'f Code list \<Rightarrow> 'f Function" where
  "prog_of cs = \<lparr>name = ''main'', args = [], instrs = cs, ftype = None\<rparr>"

text \<open>
  \<^verbatim>\<open>x: int = const 1; c: bool = const false; speculate; x: int = const 2;
  guard c .abort; .abort:\<close>
  with the state in which the \<open>guard\<close> is reached and the snapshot taken at \<open>speculate\<close>.
\<close>

definition spec_prog :: "int Function" where
  "spec_prog = prog_of
     [Instr (Constant ''x'' (Some TInt) (LNum 1)),
      Instr (Constant ''c'' (Some TBool) (LBool False)),
      Instr (Operation (EffectOperation Speculate [] [] [])),
      Instr (Constant ''x'' (Some TInt) (LNum 2)),
      Instr (Operation (EffectOperation Guard [''c''] [] [''abort''])),
      Label ''abort'']"

definition spec_snapshot :: "int State" where
  "spec_snapshot =
     State \<lparr>env = [''x'' \<mapsto> VInt 1, ''c'' \<mapsto> VBool False], gcenabled = False,
            disablefree = False, tracerenabled = False, funcs = [spec_prog], icount = 3,
            curlabel = None, lastlabel = None\<rparr> None"

definition spec_state :: "int State" where
  "spec_state =
     State \<lparr>env = [''x'' \<mapsto> VInt 2, ''c'' \<mapsto> VBool False], gcenabled = False,
            disablefree = False, tracerenabled = False, funcs = [spec_prog], icount = 4,
            curlabel = None, lastlabel = None\<rparr> (Some spec_snapshot)"

section \<open>Properties\<close>

lemma bindE_simps [simp]:
  "bindE (Inl e) f = Inl e"
  "bindE (Inr x) f = f x"
  by (simp_all add: bindE_def)

lemma upd_simps [simp]:
  "frame (upd g st) = g (frame st)"
  "specparent (upd g st) = specparent st"
  by (simp_all add: upd_def)

lemma setVar_simps [simp]:
  "env (frame (setVar d v st)) = (env (frame st))(d \<mapsto> v)"
  "specparent (setVar d v st) = specparent st"
  "icount (frame (setVar d v st)) = icount (frame st)"
  by (simp_all add: setVar_def)

lemma delVar_simps [simp]:
  "env (frame (delVar d st)) = (env (frame st))(d := None)"
  "specparent (delVar d st) = specparent st"
  by (simp_all add: delVar_def)

lemma countAndTrace_simps [simp]:
  "env (frame (fst (countAndTrace i st sh))) = env (frame st)"
  "icount (frame (fst (countAndTrace i st sh))) = icount (frame st) + 1"
  "specparent (fst (countAndTrace i st sh)) = specparent st"
  "lastlabel (frame (fst (countAndTrace i st sh))) = lastlabel (frame st)"
  "curlabel (frame (fst (countAndTrace i st sh))) = curlabel (frame st)"
  "gcenabled (frame (fst (countAndTrace i st sh))) = gcenabled (frame st)"
  "disablefree (frame (fst (countAndTrace i st sh))) = disablefree (frame st)"
  "heap (snd (countAndTrace i st sh)) = heap sh"
  "gc (snd (countAndTrace i st sh)) = gc sh"
  "keys (snd (countAndTrace i st sh)) = keys sh"
  "out (snd (countAndTrace i st sh)) = out sh"
  by (simp_all add: countAndTrace_def)

lemma asIntN_64: "asIntN 64 v = sint (word_of_int v :: 64 word)"
proof -
  let ?m = "v mod 2 ^ 64"
  have m: "0 \<le> ?m" "?m < 2 ^ 64" by simp_all
  have "(v + 2 ^ 63) mod 2 ^ 64 = (?m + 2 ^ 63) mod 2 ^ 64"
    by (simp add: mod_add_left_eq)
  also have "\<dots> = (if ?m \<ge> 2 ^ 63 then ?m - 2 ^ 63 else ?m + 2 ^ 63)"
  proof (cases "?m \<ge> 2 ^ 63")
    case True
    have "(?m + 2 ^ 63) mod 2 ^ 64 = (?m + 2 ^ 63 - 2 ^ 64) mod 2 ^ 64"
      by (rule minus_mod_self2 [symmetric])
    also have "\<dots> = ?m + 2 ^ 63 - 2 ^ 64"
      using True m by (intro mod_pos_pos_trivial) simp_all
    finally show ?thesis using True by simp
  next
    case False
    then have "(?m + 2 ^ 63) mod 2 ^ 64 = ?m + 2 ^ 63"
      using m by (intro mod_pos_pos_trivial) simp_all
    then show ?thesis using False by simp
  qed
  finally have "(v + 2 ^ 63) mod 2 ^ 64 - 2 ^ 63 = (if ?m \<ge> 2 ^ 63 then ?m - 2 ^ 64 else ?m)"
    by simp
  then show ?thesis
    by (simp add: asIntN_def Let_def sint_sbintrunc' signed_take_bit_eq_take_bit_shift take_bit_eq_mod)
qed

lemma getInt_bound:
  "length (args_of instr) > k \<Longrightarrow> e (args_of instr ! k) = Some (VInt x) \<Longrightarrow> getInt instr e k = Inr x"
  by (simp add: getInt_def getArgument_def get_def)

lemma checkOperation_binary:
  "argCounts_v op = Some 2 \<Longrightarrow> op \<noteq> VCall \<Longrightarrow>
   checkOperation (ValueOperation op d t [a, b] fs ls) st = Inr ()"
  by (simp add: checkOperation_def checkArgs_def)

text \<open>
  Claim C5. When the arguments of \<open>add\<close>, \<open>mul\<close> or \<open>sub\<close> are bound to the Ints \<open>x\<close> and
  \<open>y\<close>, the instruction binds its destination to the exact result wrapped to 64 bits in
  two's complement (read off a 64-bit word by \<open>sint\<close>) and proceeds; \<open>div\<close> does the
  same with the quotient truncated towards zero when the divisor is not zero, and fails
  with the host's \<open>RangeError\<close> when it is zero. This holds for every BigInt, so for the
  64-bit ones.
\<close>

theorem int_arith_wraps:
  assumes a: "env (frame st) a = Some (VInt x)"
    and b: "env (frame st) b = Some (VInt y)"
  shows
    "evalInstr no ef (Operation (ValueOperation Add d t [a, b] fs ls)) st sh =
       Inr (Next,
            setVar d (VInt (sint (word_of_int (x + y) :: 64 word)))
              (fst (countAndTrace (Operation (ValueOperation Add d t [a, b] fs ls)) st sh)),
            snd (countAndTrace (Operation (ValueOperation Add d t [a, b] fs ls)) st sh))
     \<and> evalInstr no ef (Operation (ValueOperation Mul d t [a, b] fs ls)) st sh =
       Inr (Next,
            setVar d (VInt (sint (word_of_int (x * y) :: 64 word)))
              (fst (countAndTrace (Operation (ValueOperation Mul d t [a, b] fs ls)) st sh)),
            snd (countAndTrace (Operation (ValueOperation Mul d t [a, b] fs ls)) st sh))
     \<and> evalInstr no ef (Operation (ValueOperation Sub d t [a, b] fs ls)) st sh =
       Inr (Next,
            setVar d (VInt (sint (word_of_int (x - y) :: 64 word)))
              (fst (countAndTrace (Operation (ValueOperation Sub d t [a, b] fs ls)) st sh)),
            snd (countAndTrace (Operation (ValueOperation Sub d t [a, b] fs ls)) st sh))
     \<and> (y \<noteq> 0 \<longrightarrow>
        evalInstr no ef (Operation (ValueOperation Div d t [a, b] fs ls)) st sh =
        Inr (Next,
             setVar d (VInt (sint (word_of_int (sgn x * sgn y * (\<bar>x\<bar> div \<bar>y\<bar>)) :: 64 word)))
               (fst (countAndTrace (Operation (ValueOperation Div d t [a, b] fs ls)) st sh)),
             snd (countAndTrace (Operation (ValueOperation Div d t [a, b] fs ls)) st sh)))
     \<and> (y = 0 \<longrightarrow>
        evalInstr no ef (Operation (ValueOperation Div d t [a, b] fs ls)) st sh = Inl RangeError)"
proof -
  have g: "getInt (ValueOperation op d t [a, b] fs ls) (env (frame st)) 0 = Inr x"
          "getInt (ValueOperation op d t [a, b] fs ls) (env (frame st)) (Suc 0) = Inr y"
    for op
    using a b by (simp_all add: getInt_bound)
  show ?thesis
    by (simp add: evalInstr_def split_beta checkOperation_binary evalValueOp_def Let_def g
        next_with_def asIntN_64 bigint_div_def)
qed

lemma indexOf_None: "indexOf xs x = None \<longleftrightarrow> x \<notin> set xs"
  by (induction xs) auto

text \<open>
  Claim C2, amended. For a \<open>phi\<close> whose labels and args have equal length: when
  \<open>lastlabel\<close> is absent (or the empty string, which \<open>!state.lastlabel\<close> treats alike) the
  evaluation fails; when \<open>lastlabel\<close> is present and not among the labels, the evaluation
  succeeds, deletes any binding of the destination and proceeds to the next instruction.
\<close>

theorem phi_lastlabel:
  assumes len: "length ls = length as"
  shows
    "(lastlabel (frame st) = None \<or> lastlabel (frame st) = Some [] \<longrightarrow>
        evalInstr no ef (Operation (ValueOperation Phi d t as fs ls)) st sh = Inl PhiNoLastLabel)
     \<and> (\<forall>ll. lastlabel (frame st) = Some ll \<and> ll \<noteq> [] \<and> ll \<notin> set ls \<longrightarrow>
          evalInstr no ef (Operation (ValueOperation Phi d t as fs ls)) st sh =
            Inr (Next,
                 delVar d (fst (countAndTrace (Operation (ValueOperation Phi d t as fs ls)) st sh)),
                 snd (countAndTrace (Operation (ValueOperation Phi d t as fs ls)) st sh))
          \<and> env (frame (delVar d
                 (fst (countAndTrace (Operation (ValueOperation Phi d t as fs ls)) st sh)))) d = None)"
proof -
  have chk: "checkOperation (ValueOperation Phi d t as fs ls) st' = Inr ()" for st' :: "'a State"
    by (simp add: checkOperation_def)
  show ?thesis
    using len
    by (auto simp: evalInstr_def split_beta chk evalValueOp_def Let_def indexOf_None [THEN iffD2])
qed

lemma getPtr_bound:
  "length (args_of instr) > k \<Longrightarrow> e (args_of instr ! k) = Some (VPtr p) \<Longrightarrow> getPtr instr e k = Inr p"
  by (simp add: getPtr_def getArgument_def get_def)

lemma Heap_write_ok:
  assumes "storage h (base k) = Some data" "0 \<le> offset k" "offset k < int (length data)"
  shows "Heap_write k v h = Inr (h\<lparr>storage := (storage h)(base k \<mapsto> data[nat (offset k) := Some v])\<rparr>)"
  using assms by (simp add: Heap_write_def)

lemma Heap_read_after_write:
  assumes "storage h (base k) = Some data" "0 \<le> offset k" "offset k < int (length data)"
  shows "Heap_read k (h\<lparr>storage := (storage h)(base k \<mapsto> data[nat (offset k) := Some v])\<rparr>) = Inr (Some v)"
  using assms by (simp add: Heap_read_def)

text \<open>
  Claim C7. Let \<open>p\<close> be bound to a pointer into a live allocation, in range, and \<open>x\<close> to a
  value \<open>v\<close>. If \<open>v\<close> passes \<open>typeCheck\<close> against the pointee type, \<open>store p x\<close> succeeds
  and a following \<open>load p\<close> binds its destination to \<open>v\<close>; if it does not, the \<open>store\<close>
  fails.
\<close>

theorem store_load_roundtrip:
  assumes p: "env (frame st) p = Some (VPtr ptr)"
    and x: "env (frame st) x = Some v"
    and live: "storage (heap sh) (base (loc ptr)) = Some data"
    and lo: "0 \<le> offset (loc ptr)"
    and hi: "offset (loc ptr) < int (length data)"
  shows
    "(typeCheck v (ptr_type ptr) \<longrightarrow>
        (\<exists>st1 sh1 st2 sh2.
           evalInstr no ef (Operation (EffectOperation Store [p, x] fs ls)) st sh = Inr (Next, st1, sh1)
         \<and> evalInstr no ef (Operation (ValueOperation Load d t [p] fs' ls')) st1 sh1 = Inr (Next, st2, sh2)
         \<and> env (frame st2) d = Some v))
     \<and> (\<not> typeCheck v (ptr_type ptr) \<longrightarrow>
        evalInstr no ef (Operation (EffectOperation Store [p, x] fs ls)) st sh = Inl (ArgumentType 1))"
proof (intro conjI impI)
  let ?store = "Operation (EffectOperation Store [p, x] fs ls)"
  let ?load = "Operation (ValueOperation Load d t [p] fs' ls')"
  have chk: "checkOperation (EffectOperation Store [p, x] fs ls) st' = Inr ()"
            "checkOperation (ValueOperation Load d t [p] fs' ls') st' = Inr ()" for st' :: "'a State"
    by (simp_all add: checkOperation_def checkArgs_def)
  have gp: "getPtr (EffectOperation Store [p, x] fs ls) (env (frame st)) 0 = Inr ptr"
    using p by (simp add: getPtr_bound)
  {
    assume tc: "typeCheck v (ptr_type ptr)"
    let ?st1 = "fst (countAndTrace ?store st sh)"
    let ?h1 = "(heap sh)\<lparr>storage := (storage (heap sh))(base (loc ptr) \<mapsto> data[nat (offset (loc ptr)) := Some v])\<rparr>"
    let ?sh1 = "(snd (countAndTrace ?store st sh))\<lparr>heap := ?h1\<rparr>"
    have ga: "getArgument (EffectOperation Store [p, x] fs ls) (env (frame st)) (Suc 0) (Some (ptr_type ptr)) = Inr v"
      using x tc by (simp add: getArgument_def get_def)
    have s: "evalInstr no ef ?store st sh = Inr (Next, ?st1, ?sh1)"
      by (simp add: evalInstr_def split_beta chk evalEffectOp_def Let_def gp ga
          Heap_write_ok [OF live lo hi])
    have gp': "getPtr (ValueOperation Load d t [p] fs' ls') (env (frame ?st1)) 0 = Inr ptr"
      using p by (simp add: getPtr_bound)
    have rd: "Heap_read (loc ptr) ?h1 = Inr (Some v)"
      by (rule Heap_read_after_write [OF live lo hi])
    have l: "evalInstr no ef ?load ?st1 ?sh1 =
               Inr (Next, setVar d v (fst (countAndTrace ?load ?st1 ?sh1)), snd (countAndTrace ?load ?st1 ?sh1))"
      using gp' rd by (simp add: evalInstr_def split_beta chk evalValueOp_def Let_def next_with_def)
    show "\<exists>st1 sh1 st2 sh2.
           evalInstr no ef ?store st sh = Inr (Next, st1, sh1)
         \<and> evalInstr no ef ?load st1 sh1 = Inr (Next, st2, sh2)
         \<and> env (frame st2) d = Some v"
      using s l by (intro exI conjI) (assumption, assumption, simp)
  }
  {
    assume tc: "\<not> typeCheck v (ptr_type ptr)"
    have ga: "getArgument (EffectOperation Store [p, x] fs ls) (env (frame st)) (Suc 0) (Some (ptr_type ptr)) = Inl (ArgumentType 1)"
      using x tc by (simp add: getArgument_def get_def)
    show "evalInstr no ef ?store st sh = Inl (ArgumentType 1)"
      by (simp add: evalInstr_def split_beta chk evalEffectOp_def Let_def gp ga)
  }
qed

lemma toDouble_small: "\<bar>v\<bar> < 2 ^ 53 \<Longrightarrow> toDouble v = v"
  by (simp add: toDouble_def)

lemma toDouble_uminus: "toDouble (- v) = - toDouble v"
  by (simp add: toDouble_def Let_def)

lemma toDouble_large:
  assumes "2 ^ 53 \<le> v"
  shows "2 ^ 53 \<le> toDouble v"
proof -
  define fl where "fl = floorlog 2 (nat v)"
  define e where "e = fl - 53"
  have vpos: "0 < v" using assms by (smt (verit) zero_less_power)
  have b: "2 ^ (fl - 1) \<le> nat v" "nat v < 2 ^ fl"
    using floorlog_bounds [of "nat v" 2] vpos by (simp_all add: fl_def)
  have "(2::nat) ^ 53 \<le> nat v" using assms by (simp add: le_nat_iff)
  then have "(2::nat) ^ 53 < 2 ^ fl" using b(2) by linarith
  moreover have "(1::nat) < 2" by simp
  ultimately have fl: "53 < fl" by (rule power_less_imp_less_exp [rotated])
  then have e1: "1 \<le> e" and fle: "fl - Suc 0 = 52 + e" by (simp_all add: e_def)
  have "int (2 ^ (fl - 1)) \<le> int (nat v)"
    using b(1) by (simp only: of_nat_le_iff)
  then have "(2::int) ^ (52 + e) \<le> v"
    using vpos by (simp add: fle)
  then have "(2::int) ^ (52 + e) div 2 ^ e \<le> v div 2 ^ e"
    by (intro zdiv_mono1) simp_all
  then have q: "(2::int) ^ 52 \<le> v div 2 ^ e"
    by (simp add: power_add)
  define q' where "q' = (if v mod 2 ^ e > 2 ^ (e - 1) \<or> (v mod 2 ^ e = 2 ^ (e - 1) \<and> odd (v div 2 ^ e))
                         then v div 2 ^ e + 1 else v div 2 ^ e)"
  have q': "2 ^ 52 \<le> q'" using q by (simp add: q'_def)
  have "(2::int) ^ 1 \<le> 2 ^ e" using e1 by (intro power_increasing) simp_all
  then have "(2::int) ^ 52 * 2 \<le> q' * 2 ^ e"
    using q' by (intro mult_mono) simp_all
  moreover have "toDouble v = q' * 2 ^ e"
    using assms vpos by (simp add: toDouble_def Let_def q'_def e_def fl_def)
  ultimately show ?thesis by simp
qed

lemma toDouble_large_neg: "v \<le> - (2 ^ 53) \<Longrightarrow> toDouble v \<le> - (2 ^ 53)"
  using toDouble_large [of "- v"] by (simp add: toDouble_uminus)

lemma toDouble_exact: "\<bar>v\<bar> \<le> 2 ^ 53 \<Longrightarrow> toDouble v = v"
proof -
  assume a: "\<bar>v\<bar> \<le> 2 ^ 53"
  have p: "toDouble 9007199254740992 = 9007199254740992"
    unfolding toDouble_def by (simp add: compute_floorlog Let_def)
  consider "\<bar>v\<bar> < 2 ^ 53" | "v = 2 ^ 53" | "v = - (2 ^ 53)" using a by fastforce
  then show ?thesis
  proof cases
    case 1 then show ?thesis by (rule toDouble_small)
  next
    case 2 then show ?thesis using p by simp
  next
    case 3 then show ?thesis using p toDouble_uminus [of 9007199254740992] by simp
  qed
qed

lemma in_range_toDouble:
  assumes "n \<le> 2 ^ 53"
  shows "(0 \<le> toDouble (toDouble k) \<and> toDouble (toDouble k) < n) \<longleftrightarrow> (0 \<le> k \<and> k < n)"
proof -
  consider "\<bar>k\<bar> < 2 ^ 53" | "2 ^ 53 \<le> k" | "k \<le> - (2 ^ 53)" by linarith
  then show ?thesis
  proof cases
    case 1 then show ?thesis by (simp add: toDouble_small)
  next
    case 2
    then have "2 ^ 53 \<le> toDouble (toDouble k)" by (intro toDouble_large)
    then show ?thesis using 2 assms by linarith
  next
    case 3
    then have "toDouble (toDouble k) \<le> - (2 ^ 53)" by (intro toDouble_large_neg)
    then show ?thesis using 3 by (smt (verit) zero_less_power)
  qed
qed

lemma initState_simps [simp]:
  "env (frame (initState fs e g d t)) = e"
  "lastlabel (frame (initState fs e g d t)) = None"
  "specparent (initState fs e g d t) = None"
  by (simp_all add: initState_def)

text \<open>
  At \<open>x = 2 ^ 63 - 1\<close> and \<open>y = 1\<close> the sum wraps to \<open>- 2 ^ 63\<close>.
\<close>

theorem int_arith_wraps_witness:
  "env (frame (initState [] [''a'' \<mapsto> VInt 9223372036854775807, ''b'' \<mapsto> VInt 1] False False False)) ''a''
     = Some (VInt 9223372036854775807)
   \<and> env (frame (initState [] [''a'' \<mapsto> VInt 9223372036854775807, ''b'' \<mapsto> VInt 1] False False False)) ''b''
     = Some (VInt 1)
   \<and> env_after (evalInstr int_numops (evalFunc int_numops 0)
        (Operation (ValueOperation Add ''c'' TInt [''a'', ''b''] [] []))
        (initState [] [''a'' \<mapsto> VInt 9223372036854775807, ''b'' \<mapsto> VInt 1] False False False)
        (initShared 5)) ''c'' = Some (VInt (- 9223372036854775808))"
  using int_arith_wraps [of "initState [] [''a'' \<mapsto> VInt 9223372036854775807, ''b'' \<mapsto> VInt 1] False False False"
      "''a''" 9223372036854775807 "''b''" 1 int_numops "evalFunc int_numops 0" "''c''" TInt "[]" "[]" "initShared 5"]
  by (simp add: env_after_def)

text \<open>
  Claim C2 as stated fails where no label has been traversed: the \<open>phi\<close> is refused
  (\<open>phi node executed with no last label\<close>).
\<close>

theorem phi_absent_lastlabel_counterexample:
  "evalInstr int_numops (evalFunc int_numops 0)
     (Operation (ValueOperation Phi ''x'' TInt [''a''] [] [''l'']))
     (initState [] [''a'' \<mapsto> VInt 1] False False False) (initShared 5) = Inl PhiNoLastLabel"
  by (simp add: evalInstr_def countAndTrace_def checkOperation_def evalValueOp_def)

text \<open>
  Both cases at a \<open>phi\<close> with the one label \<open>l\<close>: no last label, and the last label \<open>m\<close>.
\<close>

theorem phi_lastlabel_witness:
  "length [''l''] = length [''a'']
   \<and> lastlabel (frame (initState [] [''a'' \<mapsto> (VInt 1 :: int Value)] False False False)) = None
   \<and> evalInstr int_numops (evalFunc int_numops 0)
       (Operation (ValueOperation Phi ''x'' TInt [''a''] [] [''l'']))
       (initState [] [''a'' \<mapsto> VInt 1] False False False) (initShared 5) = Inl PhiNoLastLabel
   \<and> lastlabel (frame (upd (\<lambda>f. f\<lparr>lastlabel := Some ''m''\<rparr>)
         (initState [] [''x'' \<mapsto> (VInt 1 :: int Value)] False False False))) = Some ''m''
   \<and> ''m'' \<noteq> [] \<and> ''m'' \<notin> set [''l'']
   \<and> env_after (evalInstr int_numops (evalFunc int_numops 0)
       (Operation (ValueOperation Phi ''x'' TInt [''a''] [] [''l'']))
       (upd (\<lambda>f. f\<lparr>lastlabel := Some ''m''\<rparr>) (initState [] [''x'' \<mapsto> VInt 1] False False False))
       (initShared 5)) ''x'' = None"
  using phi_lastlabel [of "[''l'']" "[''a'']"
      "initState [] [''a'' \<mapsto> VInt 1] False False False" int_numops "evalFunc int_numops 0"
      "''x''" TInt "[]" "initShared 5"]
    phi_lastlabel [of "[''l'']" "[''a'']"
      "upd (\<lambda>f. f\<lparr>lastlabel := Some ''m''\<rparr>) (initState [] [''x'' \<mapsto> VInt 1] False False False)"
      int_numops "evalFunc int_numops 0" "''x''" TInt "[]" "initShared 5"]
  by (simp add: env_after_def)

lemma alloc_result:
  assumes "alloc (TPtr t) (toDouble n) sh = Inr (p, sh1)"
  shows "0 < n" "n < 2 ^ 32"
    "p = \<lparr>loc = \<lparr>kid = keys sh, base = count (heap sh), offset = 0\<rparr>, ptr_type = t\<rparr>"
    "storage (heap sh1) (count (heap sh)) = Some (replicate (nat n) None)"
proof -
  have r: "0 < toDouble n" "toDouble n < 2 ^ 32"
    using assms by (auto simp: alloc_def Heap_alloc_def split: if_splits)
  have "\<bar>n\<bar> < 2 ^ 53"
  proof (rule ccontr)
    assume "\<not> \<bar>n\<bar> < 2 ^ 53"
    then consider "2 ^ 53 \<le> n" | "n \<le> - (2 ^ 53)" by linarith
    then show False
    proof cases
      case 1 then show False using toDouble_large [of n] r by simp
    next
      case 2 then show False using toDouble_large_neg [of n] r by simp
    qed
  qed
  then have e: "toDouble n = n" by (rule toDouble_small)
  show "0 < n" "n < 2 ^ 32" using r e by simp_all
  show "p = \<lparr>loc = \<lparr>kid = keys sh, base = count (heap sh), offset = 0\<rparr>, ptr_type = t\<rparr>"
    "storage (heap sh1) (count (heap sh)) = Some (replicate (nat n) None)"
    using assms r e by (auto simp: alloc_def Heap_alloc_def split: if_splits)
qed

lemma heap_access_iff:
  assumes "storage h (base key) = Some data"
  shows "(\<exists>h'. Heap_write key v h = Inr h') \<longleftrightarrow> (0 \<le> offset key \<and> offset key < int (length data))"
    and "(\<exists>r. Heap_read key h = Inr r) \<longleftrightarrow> (0 \<le> offset key \<and> offset key < int (length data))"
  using assms by (auto simp: Heap_write_def Heap_read_def)

lemma heap_access_dead:
  assumes "storage h (base key) = None"
  shows "Heap_write key v h = Inl IllegalAccess" "Heap_read key h = Inl IllegalAccess"
  using assms by (simp_all add: Heap_write_def Heap_read_def)

lemma Key_add_simps [simp]:
  "base (Key_add k off fresh) = base k"
  "offset (Key_add k off fresh) = toDouble (offset k + off)"
  "kid (Key_add k off fresh) = fresh"
  by (simp_all add: Key_add_def)

lemma checkOperation_fixed:
  "argCounts opn = Some (length (args_of opn)) \<Longrightarrow> \<not> isCallOrRet opn \<Longrightarrow> checkOperation opn st = Inr ()"
  by (simp add: checkOperation_def checkArgs_def)

lemma checkOperation_any:
  "argCounts opn = None \<Longrightarrow> \<not> isCallOrRet opn \<Longrightarrow> checkOperation opn st = Inr ()"
  by (simp add: checkOperation_def)

lemma evalInstr_ptradd:
  assumes px: "env (frame st) x = Some (VPtr p)"
    and ky: "env (frame st) y = Some (VInt k)"
  shows "evalInstr no ef (Operation (ValueOperation Ptradd d ty [x, y] fs ls)) st sh =
      Inr (Next,
           setVar d (VPtr \<lparr>loc = Key_add (loc p) (toDouble k) (keys sh), ptr_type = ptr_type p\<rparr>)
             (fst (countAndTrace (Operation (ValueOperation Ptradd d ty [x, y] fs ls)) st sh)),
           (snd (countAndTrace (Operation (ValueOperation Ptradd d ty [x, y] fs ls)) st sh))
             \<lparr>keys := keys sh + 1\<rparr>)"
proof -
  have gp: "getPtr (ValueOperation Ptradd d ty [x, y] fs ls) (env (frame st)) 0 = Inr p"
    using px by (simp add: getPtr_bound)
  have gi: "getInt (ValueOperation Ptradd d ty [x, y] fs ls) (env (frame st)) (Suc 0) = Inr k"
    using ky by (simp add: getInt_bound)
  show ?thesis
    by (simp add: evalInstr_def split_beta checkOperation_fixed evalValueOp_def Let_def gp gi
        next_with_def)
qed

lemma offset_access_iff:
  assumes n: "0 < n" "n < 2 ^ 32"
    and q: "offset q = toDouble (toDouble k)"
    and h: "storage h (base q) = Some data" "length data = nat n"
  shows "(\<exists>h'. Heap_write q v h = Inr h') \<longleftrightarrow> (0 \<le> k \<and> k < n)"
    and "(\<exists>r. Heap_read q h = Inr r) \<longleftrightarrow> (0 \<le> k \<and> k < n)"
proof -
  have n53: "n \<le> 2 ^ 53" using n(2) by simp
  have rng: "(0 \<le> offset q \<and> offset q < int (length data)) \<longleftrightarrow> (0 \<le> k \<and> k < n)"
    using in_range_toDouble [OF n53, of k] n(1) by (simp add: q h(2))
  show "(\<exists>h'. Heap_write q v h = Inr h') \<longleftrightarrow> (0 \<le> k \<and> k < n)"
    and "(\<exists>r. Heap_read q h = Inr r) \<longleftrightarrow> (0 \<le> k \<and> k < n)"
    using heap_access_iff [OF h(1)] rng by simp_all
qed

text \<open>
  Claim C6, amended. After \<open>alloc\<close> of \<open>n\<close> entries has yielded the pointer \<open>p\<close> (so
  \<open>0 < n\<close>), \<open>ptradd\<close> of \<open>p\<close> and \<open>k\<close> yields a pointer \<open>q\<close> of the same base and pointee
  type whose offset is \<open>Number(k)\<close> (added to 0), which is \<open>k\<close> whenever \<open>\<bar>k\<bar> \<le> 2 ^ 53\<close>.
  On every heap where the allocation is live with its \<open>n\<close> slots, a write and a read
  through \<open>q\<close> succeed if and only if \<open>0 \<le> k < n\<close>; where the base is not allocated
  (freed or unknown) both fail.
\<close>

theorem alloc_ptradd_access:
  assumes al: "alloc (TPtr t) (toDouble n) sh0 = Inr (p, sh1)"
    and px: "env (frame st) x = Some (VPtr p)"
    and ky: "env (frame st) y = Some (VInt k)"
  shows
    "\<exists>q st' sh'.
        evalInstr no ef (Operation (ValueOperation Ptradd d ty [x, y] fs ls)) st sh = Inr (Next, st', sh')
      \<and> env (frame st') d = Some (VPtr q)
      \<and> base (loc q) = base (loc p)
      \<and> offset (loc q) = toDouble (toDouble k)
      \<and> (\<bar>k\<bar> \<le> 2 ^ 53 \<longrightarrow> offset (loc q) = k)
      \<and> ptr_type q = ptr_type p
      \<and> 0 < n
      \<and> storage (heap sh1) (base (loc p)) = Some (replicate (nat n) None)
      \<and> (\<forall>h data v. storage h (base (loc p)) = Some data \<and> length data = nat n \<longrightarrow>
            ((\<exists>h'. Heap_write (loc q) v h = Inr h') \<longleftrightarrow> (0 \<le> k \<and> k < n))
          \<and> ((\<exists>r. Heap_read (loc q) h = Inr r) \<longleftrightarrow> (0 \<le> k \<and> k < n)))
      \<and> (\<forall>h v. storage h (base (loc p)) = None \<longrightarrow>
            Heap_write (loc q) v h = Inl IllegalAccess \<and> Heap_read (loc q) h = Inl IllegalAccess)"
proof -
  let ?i = "Operation (ValueOperation Ptradd d ty [x, y] fs ls)"
  let ?q = "\<lparr>loc = Key_add (loc p) (toDouble k) (keys sh), ptr_type = ptr_type p\<rparr>"
  note a = alloc_result [OF al]
  have off: "offset (loc ?q) = toDouble (toDouble k)" and bs: "base (loc ?q) = base (loc p)"
    using a(3) by simp_all
  have live: "storage (heap sh1) (base (loc p)) = Some (replicate (nat n) None)"
    using a(3,4) by simp
  have small: "\<bar>k\<bar> \<le> 2 ^ 53 \<Longrightarrow> offset (loc ?q) = k"
    using off by (simp only: toDouble_exact)
  show ?thesis
    apply (rule exI [of _ ?q])
    apply (rule exI [of _ "setVar d (VPtr ?q) (fst (countAndTrace ?i st sh))"])
    apply (rule exI [of _ "(snd (countAndTrace ?i st sh))\<lparr>keys := keys sh + 1\<rparr>"])
    apply (intro conjI allI impI)
    subgoal by (rule evalInstr_ptradd [OF px ky])
    subgoal by simp
    subgoal by (rule bs)
    subgoal by (rule off)
    subgoal by (rule small)
    subgoal by simp
    subgoal by (rule a(1))
    subgoal by (rule live)
    subgoal for h data v
      using offset_access_iff(1) [OF a(1) a(2) off, of h data v] by simp
    subgoal for h data v
      using offset_access_iff(2) [OF a(1) a(2) off, of h data] by simp
    subgoal for h v by (rule heap_access_dead) simp
    subgoal for h v by (rule heap_access_dead) simp
    done
qed

text \<open>
  Claim C9 as stated fails: under \<open>-gc\<close>, after \<open>p = alloc one\<close>, \<open>q = ptradd p zero\<close> and
  \<open>r = id q\<close> the keys of \<open>p\<close> and \<open>r\<close> have the same base and the same offset, and the
  counter holds two entries for them, each of count 1.
\<close>

theorem key_identity_counterexample:
  "(case evalFunc int_numops 10 gc_prog (initState [gc_prog] Map.empty True False False) (initShared 5) of
      Inl e \<Rightarrow> False
    | Inr (r, st, sh) \<Rightarrow>
        env (frame st) ''p'' = Some (VPtr \<lparr>loc = \<lparr>kid = 0, base = 0, offset = 0\<rparr>, ptr_type = TInt\<rparr>)
      \<and> env (frame st) ''r'' = Some (VPtr \<lparr>loc = \<lparr>kid = 1, base = 0, offset = 0\<rparr>, ptr_type = TInt\<rparr>)
      \<and> referenceCounts (gc sh) (Some \<lparr>kid = 0, base = 0, offset = 0\<rparr>) = Some 1
      \<and> referenceCounts (gc sh) (Some \<lparr>kid = 1, base = 0, offset = 0\<rparr>) = Some 1)"
  by code_simp

text \<open>
  Claim C6 as stated fails in its first part: after \<open>alloc\<close> of one entry, \<open>ptradd\<close> by
  \<open>k = 2 ^ 53 + 1\<close> yields the offset \<open>2 ^ 53\<close>, not \<open>k\<close>: the offset of a \<open>Key\<close> is a
  JavaScript number, and \<open>Number(k)\<close> rounds.
\<close>

theorem ptradd_offset_counterexample:
  "(case alloc (TPtr TInt) (toDouble 1) (initShared 5 :: int shared) of
      Inl e \<Rightarrow> False
    | Inr (p, sh1) \<Rightarrow>
        env_after
          (evalInstr int_numops (evalFunc int_numops 0)
             (Operation (ValueOperation Ptradd ''q'' (TPtr TInt) [''p'', ''k''] [] []))
             (initState [] [''p'' \<mapsto> VPtr p, ''k'' \<mapsto> VInt 9007199254740993] False False False) sh1)
          ''q''
        = Some (VPtr \<lparr>loc = \<lparr>kid = 1, base = 0, offset = 9007199254740992\<rparr>, ptr_type = TInt\<rparr>))"
proof -
  have d: "toDouble 9007199254740993 = 9007199254740992"
    unfolding toDouble_def by (simp add: compute_floorlog Let_def)
  have d1: "toDouble 1 = 1" "toDouble 9007199254740992 = 9007199254740992"
    by (simp_all add: toDouble_exact)
  show ?thesis
    by (simp add: alloc_def Heap_alloc_def d1 initShared_def evalInstr_ptradd env_after_def d)
qed

text \<open>
  An allocation of three entries and \<open>k = 2\<close>.
\<close>

theorem alloc_ptradd_access_witness:
  "alloc (TPtr TInt) (toDouble 3) (initShared 5 :: int shared) =
     Inr (\<lparr>loc = \<lparr>kid = 0, base = 0, offset = 0\<rparr>, ptr_type = TInt\<rparr>,
          \<lparr>heap = \<lparr>storage = [0 \<mapsto> [None, None, None]], count = 1\<rparr>,
           gc = \<lparr>referenceCounts = Map.empty\<rparr>, tracer = Tracer_new 5, keys = 1, out = []\<rparr>)
   \<and> env (frame (initState []
          [''p'' \<mapsto> VPtr \<lparr>loc = \<lparr>kid = 0, base = 0, offset = 0\<rparr>, ptr_type = TInt\<rparr>,
           ''k'' \<mapsto> (VInt 2 :: int Value)] False False False)) ''p''
       = Some (VPtr \<lparr>loc = \<lparr>kid = 0, base = 0, offset = 0\<rparr>, ptr_type = TInt\<rparr>)
   \<and> env (frame (initState []
          [''p'' \<mapsto> VPtr \<lparr>loc = \<lparr>kid = 0, base = 0, offset = 0\<rparr>, ptr_type = TInt\<rparr>,
           ''k'' \<mapsto> (VInt 2 :: int Value)] False False False)) ''k''
       = Some (VInt 2)
   \<and> env_after
        (evalInstr int_numops (evalFunc int_numops 0)
           (Operation (ValueOperation Ptradd ''q'' (TPtr TInt) [''p'', ''k''] [] []))
           (initState []
              [''p'' \<mapsto> VPtr \<lparr>loc = \<lparr>kid = 0, base = 0, offset = 0\<rparr>, ptr_type = TInt\<rparr>,
               ''k'' \<mapsto> VInt 2] False False False)
           \<lparr>heap = \<lparr>storage = [0 \<mapsto> [None, None, None]], count = 1\<rparr>,
            gc = \<lparr>referenceCounts = Map.empty\<rparr>, tracer = Tracer_new 5, keys = 1, out = []\<rparr>)
        ''q''
      = Some (VPtr \<lparr>loc = \<lparr>kid = 1, base = 0, offset = 2\<rparr>, ptr_type = TInt\<rparr>)
   \<and> Heap_write \<lparr>kid = 1, base = 0, offset = 2\<rparr> (VInt 7 :: int Value)
        \<lparr>storage = [0 \<mapsto> [None, None, None]], count = 1\<rparr>
      = Inr \<lparr>storage = [0 \<mapsto> [None, None, Some (VInt 7)]], count = 1\<rparr>"
proof -
  have d: "toDouble 3 = 3" "toDouble 2 = 2" by (simp_all add: toDouble_exact)
  have r: "replicate 3 (None :: int Value option) = [None, None, None]"
    by (simp add: numeral_3_eq_3)
  have u: "[None, None, None :: int Value option][2 := Some (VInt 7)] = [None, None, Some (VInt 7)]"
    by (simp add: numeral_2_eq_2)
  have a: "alloc (TPtr TInt) (toDouble 3) (initShared 5 :: int shared) =
     Inr (\<lparr>loc = \<lparr>kid = 0, base = 0, offset = 0\<rparr>, ptr_type = TInt\<rparr>,
          \<lparr>heap = \<lparr>storage = [0 \<mapsto> [None, None, None]], count = 1\<rparr>,
           gc = \<lparr>referenceCounts = Map.empty\<rparr>, tracer = Tracer_new 5, keys = 1, out = []\<rparr>)"
    by (simp add: alloc_def Heap_alloc_def d initShared_def r)
  let ?st = "initState [] [''p'' \<mapsto> VPtr \<lparr>loc = \<lparr>kid = 0, base = 0, offset = 0\<rparr>, ptr_type = TInt\<rparr>,
              ''k'' \<mapsto> (VInt 2 :: int Value)] False False False"
  let ?sh = "\<lparr>heap = \<lparr>storage = [0 \<mapsto> [None, None, None]], count = 1\<rparr>,
            gc = \<lparr>referenceCounts = Map.empty\<rparr>, tracer = Tracer_new 5, keys = 1, out = []\<rparr> :: int shared"
  have p: "env (frame ?st) ''p'' = Some (VPtr \<lparr>loc = \<lparr>kid = 0, base = 0, offset = 0\<rparr>, ptr_type = TInt\<rparr>)"
    and k: "env (frame ?st) ''k'' = Some (VInt 2)"
    by simp_all
  have e: "env_after
        (evalInstr int_numops (evalFunc int_numops 0)
           (Operation (ValueOperation Ptradd ''q'' (TPtr TInt) [''p'', ''k''] [] [])) ?st ?sh) ''q''
      = Some (VPtr \<lparr>loc = \<lparr>kid = 1, base = 0, offset = 2\<rparr>, ptr_type = TInt\<rparr>)"
    by (simp add: evalInstr_ptradd [OF p k] env_after_def d Key_add_def)
  have w: "Heap_write \<lparr>kid = 1, base = 0, offset = 2\<rparr> (VInt 7 :: int Value)
        \<lparr>storage = [0 \<mapsto> [None, None, None]], count = 1\<rparr>
      = Inr \<lparr>storage = [0 \<mapsto> [None, None, Some (VInt 7)]], count = 1\<rparr>"
    by (simp add: Heap_write_def u)
  show ?thesis
    using alloc_ptradd_access [OF a p k, of int_numops "evalFunc int_numops 0" "''q''" "TPtr TInt" "[]" "[]" ?sh]
      a p k e w
    by blast
qed

text \<open>
  Storing 42 into a one-element allocation and loading it.
\<close>

theorem store_load_roundtrip_witness:
  "env (frame (initState []
       [''p'' \<mapsto> VPtr \<lparr>loc = \<lparr>kid = 0, base = 0, offset = 0\<rparr>, ptr_type = TInt\<rparr>,
        ''x'' \<mapsto> (VInt 42 :: int Value)] False False False)) ''p''
     = Some (VPtr \<lparr>loc = \<lparr>kid = 0, base = 0, offset = 0\<rparr>, ptr_type = TInt\<rparr>)
   \<and> env (frame (initState []
       [''p'' \<mapsto> VPtr \<lparr>loc = \<lparr>kid = 0, base = 0, offset = 0\<rparr>, ptr_type = TInt\<rparr>,
        ''x'' \<mapsto> (VInt 42 :: int Value)] False False False)) ''x'' = Some (VInt 42)
   \<and> storage (heap ((initShared 5 :: int shared)\<lparr>heap := \<lparr>storage = [0 \<mapsto> [None]], count = 1\<rparr>\<rparr>))
        (base (loc \<lparr>loc = \<lparr>kid = 0, base = 0, offset = 0\<rparr>, ptr_type = TInt\<rparr>)) = Some [None]
   \<and> 0 \<le> offset (loc \<lparr>loc = \<lparr>kid = 0, base = 0, offset = 0\<rparr>, ptr_type = TInt\<rparr>)
   \<and> offset (loc \<lparr>loc = \<lparr>kid = 0, base = 0, offset = 0\<rparr>, ptr_type = TInt\<rparr>)
       < int (length [None :: int Value option])
   \<and> typeCheck (VInt 42 :: int Value) (ptr_type \<lparr>loc = \<lparr>kid = 0, base = 0, offset = 0\<rparr>, ptr_type = TInt\<rparr>)
   \<and> env_after
       (bindE
          (evalInstr int_numops (evalFunc int_numops 0)
             (Operation (EffectOperation Store [''p'', ''x''] [] []))
             (initState []
               [''p'' \<mapsto> VPtr \<lparr>loc = \<lparr>kid = 0, base = 0, offset = 0\<rparr>, ptr_type = TInt\<rparr>,
                ''x'' \<mapsto> VInt 42] False False False)
             ((initShared 5)\<lparr>heap := \<lparr>storage = [0 \<mapsto> [None]], count = 1\<rparr>\<rparr>))
          (\<lambda>(a, st1, sh1).
             evalInstr int_numops (evalFunc int_numops 0)
               (Operation (ValueOperation Load ''y'' TInt [''p''] [] [])) st1 sh1))
       ''y'' = Some (VInt 42)"
  using store_load_roundtrip [of
      "initState [] [''p'' \<mapsto> VPtr \<lparr>loc = \<lparr>kid = 0, base = 0, offset = 0\<rparr>, ptr_type = TInt\<rparr>,
        ''x'' \<mapsto> VInt 42] False False False"
      "''p''" "\<lparr>loc = \<lparr>kid = 0, base = 0, offset = 0\<rparr>, ptr_type = TInt\<rparr>" "''x''" "VInt 42"
      "(initShared 5)\<lparr>heap := \<lparr>storage = [0 \<mapsto> [None]], count = 1\<rparr>\<rparr>" "[None]"
      int_numops "evalFunc int_numops 0" "[]" "[]" "''y''" TInt "[]" "[]"]
  by (auto simp: env_after_def)

lemma addReference_lookup:
  "referenceCounts (addReference k g) k' =
     (if k' = k then Some (case referenceCounts g k of None \<Rightarrow> 1 | Some c \<Rightarrow> c + 1)
      else referenceCounts g k')"
  by (simp add: addReference_def)

text \<open>
  Claim C8. \<open>handleAssignment\<close> of a new pointer to \<open>dst\<close>: when \<open>dst\<close> binds a pointer \<open>old\<close>
  whose key has the count \<open>c\<close>, the count becomes \<open>c - 1\<close>; when that is 0, the old
  allocation is freed from the heap and the entry of the old key is dropped (and the
  assignment fails where that \<open>free\<close> fails); when \<open>dst\<close> binds no pointer, or a pointer
  whose key has no count, nothing is decremented. Then the count of the new pointer's key
  is incremented, to 1 if the key had none.
\<close>

theorem handleAssignment_counts:
  "(\<forall>old c. env (frame st) dst = Some (VPtr old)
        \<and> referenceCounts (gc sh) (Some (loc old)) = Some c \<and> c \<noteq> 1 \<longrightarrow>
      handleAssignment dst st (VPtr new) sh =
        Inr (sh\<lparr>gc := addReference (Some (loc new))
               ((gc sh)\<lparr>referenceCounts := (referenceCounts (gc sh))(Some (loc old) \<mapsto> c - 1)\<rparr>)\<rparr>))
   \<and> (\<forall>old h1. env (frame st) dst = Some (VPtr old)
        \<and> referenceCounts (gc sh) (Some (loc old)) = Some 1
        \<and> Heap_free (loc old) (heap sh) = Inr h1 \<longrightarrow>
      handleAssignment dst st (VPtr new) sh =
        Inr (sh\<lparr>heap := h1,
               gc := addReference (Some (loc new))
                 ((gc sh)\<lparr>referenceCounts := (referenceCounts (gc sh))(Some (loc old) := None)\<rparr>)\<rparr>)
      \<and> storage h1 (base (loc old)) = None)
   \<and> (\<forall>old e. env (frame st) dst = Some (VPtr old)
        \<and> referenceCounts (gc sh) (Some (loc old)) = Some 1
        \<and> Heap_free (loc old) (heap sh) = Inl e \<longrightarrow>
      handleAssignment dst st (VPtr new) sh = Inl e)
   \<and> ((\<forall>old. env (frame st) dst = Some (VPtr old) \<longrightarrow>
          referenceCounts (gc sh) (Some (loc old)) = None) \<longrightarrow>
      handleAssignment dst st (VPtr new) sh =
        Inr (sh\<lparr>gc := addReference (Some (loc new)) (gc sh)\<rparr>))
   \<and> (\<forall>g. referenceCounts (addReference (Some (loc new)) g) (Some (loc new)) =
          Some (case referenceCounts g (Some (loc new)) of None \<Rightarrow> 1 | Some c \<Rightarrow> c + 1))"
proof (intro conjI allI impI)
  fix old c
  assume "env (frame st) dst = Some (VPtr old)
        \<and> referenceCounts (gc sh) (Some (loc old)) = Some c \<and> c \<noteq> 1"
  then show "handleAssignment dst st (VPtr new) sh =
        Inr (sh\<lparr>gc := addReference (Some (loc new))
               ((gc sh)\<lparr>referenceCounts := (referenceCounts (gc sh))(Some (loc old) \<mapsto> c - 1)\<rparr>)\<rparr>)"
    by (simp add: handleAssignment_def decrementReference_def)
next
  fix old h1
  assume a: "env (frame st) dst = Some (VPtr old)
        \<and> referenceCounts (gc sh) (Some (loc old)) = Some 1
        \<and> Heap_free (loc old) (heap sh) = Inr h1"
  then show "handleAssignment dst st (VPtr new) sh =
        Inr (sh\<lparr>heap := h1,
               gc := addReference (Some (loc new))
                 ((gc sh)\<lparr>referenceCounts := (referenceCounts (gc sh))(Some (loc old) := None)\<rparr>)\<rparr>)"
    by (simp add: handleAssignment_def decrementReference_def)
  from a show "storage h1 (base (loc old)) = None"
    by (auto simp: Heap_free_def split: if_splits)
next
  fix old e
  assume "env (frame st) dst = Some (VPtr old)
        \<and> referenceCounts (gc sh) (Some (loc old)) = Some 1
        \<and> Heap_free (loc old) (heap sh) = Inl e"
  then show "handleAssignment dst st (VPtr new) sh = Inl e"
    by (simp add: handleAssignment_def decrementReference_def)
next
  assume "\<forall>old. env (frame st) dst = Some (VPtr old) \<longrightarrow>
          referenceCounts (gc sh) (Some (loc old)) = None"
  then show "handleAssignment dst st (VPtr new) sh =
        Inr (sh\<lparr>gc := addReference (Some (loc new)) (gc sh)\<rparr>)"
    by (auto simp: handleAssignment_def decrementReference_def Let_def
        split: option.splits Value.splits)
next
  fix g
  show "referenceCounts (addReference (Some (loc new)) g) (Some (loc new)) =
          Some (case referenceCounts g (Some (loc new)) of None \<Rightarrow> 1 | Some c \<Rightarrow> c + 1)"
    by (simp add: addReference_lookup)
qed

text \<open>
  \<open>x\<close> holds the only reference to allocation 0 and is assigned a pointer to allocation 1.
\<close>

theorem handleAssignment_counts_witness:
  "env (frame (initState []
      [''x'' \<mapsto> (VPtr \<lparr>loc = \<lparr>kid = 0, base = 0, offset = 0\<rparr>, ptr_type = TInt\<rparr> :: int Value)]
      True False False)) ''x''
     = Some (VPtr \<lparr>loc = \<lparr>kid = 0, base = 0, offset = 0\<rparr>, ptr_type = TInt\<rparr>)
   \<and> referenceCounts (gc ((initShared 5 :: int shared)
        \<lparr>heap := \<lparr>storage = [0 \<mapsto> [None], 1 \<mapsto> [None]], count = 2\<rparr>,
         gc := \<lparr>referenceCounts = [Some \<lparr>kid = 0, base = 0, offset = 0\<rparr> \<mapsto> 1]\<rparr>\<rparr>))
       (Some (loc \<lparr>loc = \<lparr>kid = 0, base = 0, offset = 0\<rparr>, ptr_type = TInt\<rparr>)) = Some 1
   \<and> Heap_free (loc \<lparr>loc = \<lparr>kid = 0, base = 0, offset = 0\<rparr>, ptr_type = TInt\<rparr>)
        (heap ((initShared 5 :: int shared)
        \<lparr>heap := \<lparr>storage = [0 \<mapsto> [None], 1 \<mapsto> [None]], count = 2\<rparr>,
         gc := \<lparr>referenceCounts = [Some \<lparr>kid = 0, base = 0, offset = 0\<rparr> \<mapsto> 1]\<rparr>\<rparr>))
       = Inr \<lparr>storage = [0 \<mapsto> [None], 1 \<mapsto> [None]](0 := None), count = 2\<rparr>
   \<and> (case handleAssignment ''x''
          (initState []
            [''x'' \<mapsto> VPtr \<lparr>loc = \<lparr>kid = 0, base = 0, offset = 0\<rparr>, ptr_type = TInt\<rparr>]
            True False False)
          (VPtr \<lparr>loc = \<lparr>kid = 1, base = 1, offset = 0\<rparr>, ptr_type = TInt\<rparr>)
          ((initShared 5 :: int shared)
            \<lparr>heap := \<lparr>storage = [0 \<mapsto> [None], 1 \<mapsto> [None]], count = 2\<rparr>,
             gc := \<lparr>referenceCounts = [Some \<lparr>kid = 0, base = 0, offset = 0\<rparr> \<mapsto> 1]\<rparr>\<rparr>) of
        Inl e \<Rightarrow> False
      | Inr sh' \<Rightarrow>
          storage (heap sh') 0 = None
        \<and> storage (heap sh') 1 = Some [None]
        \<and> referenceCounts (gc sh') (Some \<lparr>kid = 0, base = 0, offset = 0\<rparr>) = None
        \<and> referenceCounts (gc sh') (Some \<lparr>kid = 1, base = 1, offset = 0\<rparr>) = Some 1)"
proof -
  let ?st = "initState []
      [''x'' \<mapsto> (VPtr \<lparr>loc = \<lparr>kid = 0, base = 0, offset = 0\<rparr>, ptr_type = TInt\<rparr> :: int Value)]
      True False False"
  let ?sh = "(initShared 5 :: int shared)
        \<lparr>heap := \<lparr>storage = [0 \<mapsto> [None], 1 \<mapsto> [None]], count = 2\<rparr>,
         gc := \<lparr>referenceCounts = [Some \<lparr>kid = 0, base = 0, offset = 0\<rparr> \<mapsto> 1]\<rparr>\<rparr>"
  let ?old = "\<lparr>loc = \<lparr>kid = 0, base = 0, offset = 0\<rparr>, ptr_type = TInt\<rparr>"
  let ?new = "\<lparr>loc = \<lparr>kid = 1, base = 1, offset = 0\<rparr>, ptr_type = TInt\<rparr>"
  let ?h1 = "\<lparr>storage = [0 \<mapsto> [None], 1 \<mapsto> [None :: int Value option]](0 := None), count = 2\<rparr>"
  have h1: "env (frame ?st) ''x'' = Some (VPtr ?old)" by simp
  have h2: "referenceCounts (gc ?sh) (Some (loc ?old)) = Some 1" by simp
  have h3: "Heap_free (loc ?old) (heap ?sh) = Inr ?h1" by (simp add: Heap_free_def)
  from handleAssignment_counts [of ?st "''x''" ?sh ?new] h1 h2 h3
  have r: "handleAssignment ''x'' ?st (VPtr ?new) ?sh =
        Inr (?sh\<lparr>heap := ?h1,
               gc := addReference (Some (loc ?new))
                 ((gc ?sh)\<lparr>referenceCounts := (referenceCounts (gc ?sh))(Some (loc ?old) := None)\<rparr>)\<rparr>)"
    by blast
  have c: "(case handleAssignment ''x'' ?st (VPtr ?new) ?sh of
        Inl e \<Rightarrow> False
      | Inr sh' \<Rightarrow>
          storage (heap sh') 0 = None
        \<and> storage (heap sh') 1 = Some [None]
        \<and> referenceCounts (gc sh') (Some \<lparr>kid = 0, base = 0, offset = 0\<rparr>) = None
        \<and> referenceCounts (gc sh') (Some \<lparr>kid = 1, base = 1, offset = 0\<rparr>) = Some 1)"
    unfolding r by (simp add: addReference_lookup)
  show ?thesis using h1 h2 h3 c by blast
qed

text \<open>
  Claim C9, amended. The reference counter keeps one count per \<open>Key\<close> object: incrementing
  and then decrementing through the same \<open>Key\<close> acts on one entry and returns the count
  to what it was, while two distinct \<open>Key\<close> objects have separate entries, also when their
  base and offset are equal: incrementing through one leaves what a decrement through
  the other sees and does, and that decrement leaves the count of the first.
\<close>

theorem key_identity:
  "fst (decrementReference (Some k) (addReference (Some k) g)) =
      Some (case referenceCounts g (Some k) of None \<Rightarrow> 0 | Some c \<Rightarrow> c)
   \<and> (kid k1 \<noteq> kid k2 \<longrightarrow>
        fst (decrementReference (Some k2) (addReference (Some k1) g)) =
          map_option (\<lambda>c. c - 1) (referenceCounts g (Some k2))
      \<and> referenceCounts (snd (decrementReference (Some k2) (addReference (Some k1) g))) (Some k1) =
          Some (case referenceCounts g (Some k1) of None \<Rightarrow> 1 | Some c \<Rightarrow> c + 1))"
  by (auto simp: decrementReference_def addReference_def split: option.splits)

text \<open>
  Two keys of base 0 and offset 0: after an increment through the first, a decrement
  through the second finds no entry.
\<close>

theorem key_identity_witness:
  "kid \<lparr>kid = 0, base = 0, offset = 0\<rparr> \<noteq> kid \<lparr>kid = 1, base = 0, offset = 0\<rparr>
   \<and> fst (decrementReference (Some \<lparr>kid = 1, base = 0, offset = 0\<rparr>)
        (addReference (Some \<lparr>kid = 0, base = 0, offset = 0\<rparr>) \<lparr>referenceCounts = Map.empty\<rparr>)) = None
   \<and> referenceCounts (snd (decrementReference (Some \<lparr>kid = 1, base = 0, offset = 0\<rparr>)
        (addReference (Some \<lparr>kid = 0, base = 0, offset = 0\<rparr>) \<lparr>referenceCounts = Map.empty\<rparr>)))
        (Some \<lparr>kid = 0, base = 0, offset = 0\<rparr>) = Some 1"
  using key_identity [of "\<lparr>kid = 0, base = 0, offset = 0\<rparr>" "\<lparr>referenceCounts = Map.empty\<rparr>"
      "\<lparr>kid = 0, base = 0, offset = 0\<rparr>" "\<lparr>kid = 1, base = 0, offset = 0\<rparr>"]
  by simp

declare evalFuncFrom.simps [simp del]

lemma bindE_InrE:
  assumes "bindE m f = Inr r"
  obtains x where "m = Inr x" "f x = Inr r"
  using assms by (cases m) auto

lemma findLabel_Some:
  "findLabel l cs = Some j \<Longrightarrow> j < length cs \<and> cs ! j = Label l"
proof (induction cs arbitrary: j)
  case Nil
  then show ?case by simp
next
  case (Cons c cs)
  then show ?case by (cases "c = Label l") auto
qed

lemma evalInstr_speculate:
  "evalInstr no ef (Operation (EffectOperation Speculate [] fs ls)) st sh =
     Inr (ActSpeculate,
          fst (countAndTrace (Operation (EffectOperation Speculate [] fs ls)) st sh),
          snd (countAndTrace (Operation (EffectOperation Speculate [] fs ls)) st sh))"
  by (simp add: evalInstr_def split_beta checkOperation_fixed evalEffectOp_def)

lemma evalInstr_commit:
  "evalInstr no ef (Operation (EffectOperation Commit [] fs ls)) st sh =
     Inr (ActCommit,
          fst (countAndTrace (Operation (EffectOperation Commit [] fs ls)) st sh),
          snd (countAndTrace (Operation (EffectOperation Commit [] fs ls)) st sh))"
  by (simp add: evalInstr_def split_beta checkOperation_fixed evalEffectOp_def)

lemma evalInstr_guard_false:
  assumes "env (frame st) c = Some (VBool False)"
  shows "evalInstr no ef (Operation (EffectOperation Guard [c] fs (l # ls))) st sh =
     Inr (Abort l,
          fst (countAndTrace (Operation (EffectOperation Guard [c] fs (l # ls))) st sh),
          snd (countAndTrace (Operation (EffectOperation Guard [c] fs (l # ls))) st sh))"
  using assms
  by (simp add: evalInstr_def split_beta checkOperation_fixed evalEffectOp_def getBool_def
      getArgument_def get_def getLabel_def)

lemma evalFuncFrom_instr:
  assumes "i < length (instrs func)"
    and "instrs func ! i = Instr line"
    and "evalInstr no (\<lambda>f s h. evalFuncFrom no n f 0 s h) line st sh = Inr (action, st1, sh1)"
  shows "evalFuncFrom no (Suc n) func i st sh =
     (case action of
        End ret \<Rightarrow> Inr (ret, st1, sh1)
      | _ \<Rightarrow>
          bindE (takeAction action st1) (\<lambda>st2.
            case actionLabel action of
              None \<Rightarrow> evalFuncFrom no n func (i + 1) st2 sh1
            | Some l \<Rightarrow>
                (case findLabel l (instrs func) of
                   None \<Rightarrow> Inl (LabelNotFound l)
                 | Some j \<Rightarrow> evalFuncFrom no n func j st2 sh1)))"
  using assms by (simp add: evalFuncFrom.simps)

lemma abort_step:
  assumes i: "i < length (instrs func)"
    and g: "instrs func ! i = Instr (Operation (EffectOperation Guard [c] fs (l # ls)))"
    and c: "env (frame st) c = Some (VBool False)"
    and sp: "specparent st = Some sp"
    and j: "findLabel l (instrs func) = Some j"
  shows "evalFuncFrom no (Suc n) func i st sh =
     evalFuncFrom no n func j
       (State ((frame st)\<lparr>icount := icount (frame st) + 1, env := env (frame sp),
                          lastlabel := lastlabel (frame sp), curlabel := curlabel (frame sp)\<rparr>)
              (specparent sp))
       (snd (countAndTrace (Operation (EffectOperation Guard [c] fs (l # ls))) st sh))"
  by (simp add: evalFuncFrom_instr [OF i g evalInstr_guard_false [OF c]] takeAction_def sp j
      countAndTrace_def upd_def)

text \<open>
  Claim C3. In a state whose snapshot \<open>sp\<close> is not null, a \<open>guard\<close> whose argument is false
  makes the loop go on at the index of its label, in the state whose \<open>env\<close>, \<open>lastlabel\<close>,
  \<open>curlabel\<close> and \<open>specparent\<close> are those of the snapshot and whose \<open>icount\<close> is the
  current one, incremented for the \<open>guard\<close>; the heap and the reference counter are the
  current ones, and the tracer is the current one, with the \<open>guard\<close> recorded if it is
  active.
\<close>

theorem abort_restores:
  assumes i: "i < length (instrs func)"
    and g: "instrs func ! i = Instr (Operation (EffectOperation Guard [c] fs (l # ls)))"
    and c: "env (frame st) c = Some (VBool False)"
    and sp: "specparent st = Some sp"
    and j: "findLabel l (instrs func) = Some j"
  shows "evalFuncFrom no (Suc n) func i st sh =
     evalFuncFrom no n func j
       (State ((frame st)\<lparr>icount := icount (frame st) + 1, env := env (frame sp),
                          lastlabel := lastlabel (frame sp), curlabel := curlabel (frame sp)\<rparr>)
              (specparent sp))
       (sh\<lparr>tracer := if isActive (tracer sh)
                       then traceInstr (Operation (EffectOperation Guard [c] fs (l # ls))) (tracer sh)
                       else tracer sh\<rparr>)
     \<and> j < length (instrs func) \<and> instrs func ! j = Label l"
  using abort_step [OF i g c sp j, of no n sh] findLabel_Some [OF j]
  by (simp add: countAndTrace_def)

lemma checkReturn_specparent:
  "checkReturn instr func rv st = Inr st' \<Longrightarrow> specparent st' = specparent st"
  by (auto simp: checkReturn_def split: Operation.splits option.splits if_splits)

lemma evalCall_specparent:
  assumes "evalCall ef instr st sh = Inr (a, st', sh')"
  shows "specparent st' = specparent st"
  using assms
  by (auto simp: evalCall_def Let_def split: if_splits prod.splits
      elim!: bindE_InrE dest!: checkReturn_specparent)

lemma next_with_specparent:
  "next_with d v st sh = Inr (a, st', sh') \<Longrightarrow> specparent st' = specparent st"
  by (auto simp: next_with_def)

lemma evalValueOp_specparent:
  assumes "evalValueOp no ef op d t instr st sh = Inr (a, st', sh')"
  shows "specparent st' = specparent st"
proof (cases "op = VCall")
  case True
  then show ?thesis using assms by (simp add: evalValueOp_def evalCall_specparent)
next
  case False
  then show ?thesis
    using assms
    by (cases op)
      (auto simp: evalValueOp_def Let_def split: if_splits option.splits Type.splits prod.splits
        elim!: bindE_InrE dest!: next_with_specparent)
qed

lemma evalEffectOp_specparent:
  assumes "evalEffectOp ef op instr st sh = Inr (a, st', sh')"
  shows "specparent st' = specparent st"
proof (cases "op = ECall")
  case True
  then show ?thesis using assms by (simp add: evalEffectOp_def evalCall_specparent)
next
  case False
  then show ?thesis
    using assms
    by (cases op)
      (auto simp: evalEffectOp_def Let_def split: if_splits elim!: bindE_InrE)
qed

lemma evalInstr_specparent:
  assumes "evalInstr no ef instr st sh = Inr (a, st', sh')"
  shows "specparent st' = specparent st"
proof (cases instr)
  case (Constant d t lit)
  then show ?thesis
    using assms
    by (auto simp: evalInstr_def evalConst_def countAndTrace_def
        split: literal.splits if_splits option.splits dest!: next_with_specparent)
next
  case (Operation opn)
  then show ?thesis
    using assms
    by (cases opn)
      (auto simp: evalInstr_def countAndTrace_def elim!: bindE_InrE
        dest!: evalValueOp_specparent evalEffectOp_specparent)
qed

lemma speculate_step:
  assumes i: "i < length (instrs func)"
    and s: "instrs func ! i = Instr (Operation (EffectOperation Speculate [] fs ls))"
  shows "evalFuncFrom no (Suc n) func i st sh =
     evalFuncFrom no n func (i + 1)
       (State (frame (fst (countAndTrace (Operation (EffectOperation Speculate [] fs ls)) st sh)))
          (Some (fst (countAndTrace (Operation (EffectOperation Speculate [] fs ls)) st sh))))
       (snd (countAndTrace (Operation (EffectOperation Speculate [] fs ls)) st sh))"
  unfolding evalFuncFrom_instr [OF i s evalInstr_speculate]
  by (simp add: takeAction_def)

lemma commit_step:
  assumes i: "i < length (instrs func)"
    and s: "instrs func ! i = Instr (Operation (EffectOperation Commit [] fs ls))"
  shows "evalFuncFrom no (Suc n) func i st sh =
     (if specparent st = None then Inl CommitNonSpeculative
      else evalFuncFrom no n func (i + 1)
        (State (frame (fst (countAndTrace (Operation (EffectOperation Commit [] fs ls)) st sh))) None)
        (snd (countAndTrace (Operation (EffectOperation Commit [] fs ls)) st sh)))"
  unfolding evalFuncFrom_instr [OF i s evalInstr_commit]
  by (simp add: takeAction_def)

lemma abort_none:
  assumes i: "i < length (instrs func)"
    and g: "instrs func ! i = Instr (Operation (EffectOperation Guard [c] fs (l # ls)))"
    and c: "env (frame st) c = Some (VBool False)"
    and sp: "specparent st = None"
  shows "evalFuncFrom no (Suc n) func i st sh = Inl AbortNonSpeculative"
  unfolding evalFuncFrom_instr [OF i g evalInstr_guard_false [OF c]]
  by (simp add: takeAction_def sp)

lemma end_step:
  assumes "\<not> i < length (instrs func)"
  shows "evalFuncFrom no (Suc n) func i st sh =
     (if specparent st \<noteq> None then Inl ImplicitReturnSpeculative else Inr (None, st, sh))"
  using assms by (simp add: evalFuncFrom.simps)

lemma label_step:
  assumes "i < length (instrs func)" "instrs func ! i = Label l"
  shows "evalFuncFrom no (Suc n) func i st sh =
     evalFuncFrom no n func (i + 1)
       (upd (\<lambda>f. f\<lparr>lastlabel := curlabel f, curlabel := Some l\<rparr>) st) sh"
  using assms by (simp add: evalFuncFrom.simps)

lemma specparent_newState [simp]: "specparent (newState st e) = None"
  by (simp add: newState_def)

lemma evalCall_fresh_frame:
  assumes "\<And>f s h. specparent s = None \<Longrightarrow> ef f s h = ef' f s h"
  shows "evalCall ef instr st sh = evalCall ef' instr st sh"
proof -
  have eq: "ef func (newState st e) sh0 = ef' func (newState st e) sh0" for func e sh0
    by (rule assms) simp
  show ?thesis unfolding evalCall_def eq by (rule refl)
qed

text \<open>
  The run of \<open>spec_prog\<close> from the \<open>guard\<close>, and from the start: \<open>x\<close> is 1 again and five
  instructions are counted.
\<close>

theorem abort_restores_witness:
  "4 < length (instrs spec_prog)
   \<and> instrs spec_prog ! 4 = Instr (Operation (EffectOperation Guard [''c''] [] [''abort'']))
   \<and> env (frame spec_state) ''c'' = Some (VBool False)
   \<and> specparent spec_state = Some spec_snapshot
   \<and> findLabel ''abort'' (instrs spec_prog) = Some 5
   \<and> (case evalFuncFrom int_numops 3 spec_prog 4 spec_state (initShared 5) of
         Inl e \<Rightarrow> False
       | Inr (r, st', sh') \<Rightarrow>
           env (frame st') ''x'' = Some (VInt 1) \<and> icount (frame st') = 5
         \<and> specparent st' = None \<and> lastlabel (frame st') = None
         \<and> curlabel (frame st') = Some ''abort'')
   \<and> (case evalFunc int_numops 10 spec_prog
              (initState [spec_prog] Map.empty False False False) (initShared 5) of
         Inl e \<Rightarrow> False
       | Inr (r, st', sh') \<Rightarrow>
           env (frame st') ''x'' = Some (VInt 1) \<and> icount (frame st') = 5)"
proof -
  have h1: "4 < length (instrs spec_prog)"
    and h2: "instrs spec_prog ! 4 = Instr (Operation (EffectOperation Guard [''c''] [] [''abort'']))"
    and h3: "env (frame spec_state) ''c'' = Some (VBool False)"
    and h4: "specparent spec_state = Some spec_snapshot"
    and h5: "findLabel ''abort'' (instrs spec_prog) = Some 5"
    by (simp_all add: spec_prog_def prog_of_def spec_state_def)
  have r1: "(case evalFuncFrom int_numops 3 spec_prog 4 spec_state (initShared 5) of
         Inl e \<Rightarrow> False
       | Inr (r, st', sh') \<Rightarrow>
           env (frame st') ''x'' = Some (VInt 1) \<and> icount (frame st') = 5
         \<and> specparent st' = None \<and> lastlabel (frame st') = None
         \<and> curlabel (frame st') = Some ''abort'')"
    by code_simp
  have r2: "(case evalFunc int_numops 10 spec_prog
              (initState [spec_prog] Map.empty False False False) (initShared 5) of
         Inl e \<Rightarrow> False
       | Inr (r, st', sh') \<Rightarrow>
           env (frame st') ''x'' = Some (VInt 1) \<and> icount (frame st') = 5)"
    by code_simp
  show ?thesis
    using abort_restores [OF h1 h2 h3 h4 h5, of int_numops 2 "initShared 5"] h1 h2 h3 h4 h5 r1 r2
    by blast
qed

text \<open>
  Claim C4. How \<open>specparent\<close> changes during the evaluation of a function: \<open>speculate\<close>
  sets it to the snapshot of the current state; \<open>commit\<close> fails when it is null and
  clears it otherwise; an abort fails when it is null and otherwise puts back the
  snapshot's own \<open>specparent\<close>; reaching the end of the function fails when it is not
  null; a label, the evaluation of any instruction and every other action leave it as it
  is; and a call evaluates the callee in a frame whose \<open>specparent\<close> is null, and only
  there.
\<close>

theorem speculation_parent:
  "(i < length (instrs func)
      \<and> instrs func ! i = Instr (Operation (EffectOperation Speculate [] fs ls)) \<longrightarrow>
      evalFuncFrom no (Suc n) func i st sh =
        evalFuncFrom no n func (i + 1)
          (State (frame (fst (countAndTrace (Operation (EffectOperation Speculate [] fs ls)) st sh)))
             (Some (fst (countAndTrace (Operation (EffectOperation Speculate [] fs ls)) st sh))))
          (snd (countAndTrace (Operation (EffectOperation Speculate [] fs ls)) st sh)))
   \<and> (i < length (instrs func)
      \<and> instrs func ! i = Instr (Operation (EffectOperation Commit [] fs ls)) \<longrightarrow>
      evalFuncFrom no (Suc n) func i st sh =
        (if specparent st = None then Inl CommitNonSpeculative
         else evalFuncFrom no n func (i + 1)
           (State (frame (fst (countAndTrace (Operation (EffectOperation Commit [] fs ls)) st sh)))
              None)
           (snd (countAndTrace (Operation (EffectOperation Commit [] fs ls)) st sh))))
   \<and> (i < length (instrs func)
      \<and> instrs func ! i = Instr (Operation (EffectOperation Guard [c] fs (l # ls)))
      \<and> env (frame st) c = Some (VBool False) \<and> specparent st = None \<longrightarrow>
      evalFuncFrom no (Suc n) func i st sh = Inl AbortNonSpeculative)
   \<and> (\<forall>sp j. i < length (instrs func)
      \<and> instrs func ! i = Instr (Operation (EffectOperation Guard [c] fs (l # ls)))
      \<and> env (frame st) c = Some (VBool False) \<and> specparent st = Some sp
      \<and> findLabel l (instrs func) = Some j \<longrightarrow>
      evalFuncFrom no (Suc n) func i st sh =
        evalFuncFrom no n func j
          (State ((frame st)\<lparr>icount := icount (frame st) + 1, env := env (frame sp),
                             lastlabel := lastlabel (frame sp), curlabel := curlabel (frame sp)\<rparr>)
                 (specparent sp))
          (snd (countAndTrace (Operation (EffectOperation Guard [c] fs (l # ls))) st sh)))
   \<and> (\<not> i < length (instrs func) \<longrightarrow>
      evalFuncFrom no (Suc n) func i st sh =
        (if specparent st \<noteq> None then Inl ImplicitReturnSpeculative else Inr (None, st, sh)))
   \<and> (\<forall>lb. i < length (instrs func) \<and> instrs func ! i = Label lb \<longrightarrow>
      evalFuncFrom no (Suc n) func i st sh =
        evalFuncFrom no n func (i + 1)
          (upd (\<lambda>f. f\<lparr>lastlabel := curlabel f, curlabel := Some lb\<rparr>) st) sh
      \<and> specparent (upd (\<lambda>f. f\<lparr>lastlabel := curlabel f, curlabel := Some lb\<rparr>) st) = specparent st)
   \<and> (\<forall>instr a st' sh'. evalInstr no ef instr st sh = Inr (a, st', sh') \<longrightarrow>
        specparent st' = specparent st)
   \<and> (\<forall>a st'. takeAction a st = Inr st' \<and> a \<noteq> ActSpeculate \<and> a \<noteq> ActCommit
        \<and> (\<forall>lb. a \<noteq> Abort lb) \<longrightarrow> st' = st)
   \<and> (\<forall>e. specparent (newState st e) = None)
   \<and> ((\<forall>f s h. specparent s = None \<longrightarrow> ef f s h = ef' f s h) \<longrightarrow>
        (\<forall>opn. evalCall ef opn st sh = evalCall ef' opn st sh))"
proof (intro conjI allI impI)
  fix a st'
  assume "takeAction a st = Inr st' \<and> a \<noteq> ActSpeculate \<and> a \<noteq> ActCommit \<and> (\<forall>lb. a \<noteq> Abort lb)"
  then show "st' = st" by (cases a) (auto simp: takeAction_def)
qed (auto simp: speculate_step commit_step abort_none abort_step end_step label_step
       evalInstr_specparent intro: evalCall_fresh_frame)

end
